theory Spec2Isabelle
  imports Main "HOL-Library.Word"
begin

section \<open>Dialect translation core of the gateway: a shallow embedding\<close>

text \<open>
  The Go sources under \<^verbatim>\<open>relay/channel/openai_responses\<close> and \<^verbatim>\<open>relay/channel/claude\<close>
  translate requests, responses and event streams between the Chat Completions, the
  Messages and the Responses dialects.  Each Go function that a property below talks
  about is translated into a HOL function of the same name.  Where both packages declare
  a function of one name, the one of package \<^verbatim>\<open>claude\<close> carries the prefix \<open>claude_\<close>.

  Conventions.
  \<^item> A Go \<^verbatim>\<open>string\<close> and a \<^verbatim>\<open>[]byte\<close> are sequences of bytes: the type \<open>string\<close>
    (\<open>char list\<close>, a \<open>char\<close> being one byte, read by \<open>of_char\<close>).
  \<^item> A Go \<^verbatim>\<open>int\<close> is a 64-bit machine integer: \<open>64 word\<close>, whose \<open>+\<close> wraps.
  \<^item> A pointer that may be \<^verbatim>\<open>nil\<close> is an \<open>option\<close>.
  \<^item> A Go \<^verbatim>\<open>(value, error)\<close> result is a sum \<open>go_error + value\<close>, \<open>Inl\<close> the error.
  \<^item> Functions of packages that are not part of the translated files (the JSON codec, the
    tokenizer, the native request converters) are parameters of the functions that call
    them.  The standard library's \<^verbatim>\<open>unicode/utf8\<close>, \<^verbatim>\<open>unicode\<close> and \<^verbatim>\<open>strings\<close> functions are
    modelled after their documented behaviour.
\<close>

subsection \<open>Go text primitives: runes and UTF-8\<close>

text \<open>
  A rune is a Unicode code point.  Go's \<^verbatim>\<open>rune\<close> is \<^verbatim>\<open>int32\<close>; decoding never yields a
  negative rune, so runes are natural numbers here.
\<close>

type_synonym rune = nat

text \<open>\<^verbatim>\<open>utf8.RuneError\<close>, the replacement character U+FFFD.\<close>

definition RuneError :: rune where
  "RuneError = 0xFFFD"

text \<open>\<^verbatim>\<open>utf8.ValidRune\<close>: in range and not a surrogate half.\<close>

definition ValidRune :: "rune \<Rightarrow> bool" where
  "ValidRune r \<longleftrightarrow> r < 0xD800 \<or> (0xDFFF < r \<and> r \<le> 0x10FFFF)"

text \<open>
  \<^verbatim>\<open>unicode.IsControl\<close>: the category Cc, which is U+0000..U+001F and U+007F..U+009F
  (all control characters are below \<^verbatim>\<open>unicode.MaxLatin1\<close>).
\<close>

definition IsControl :: "rune \<Rightarrow> bool" where
  "IsControl r \<longleftrightarrow> r \<le> 0x1F \<or> (0x7F \<le> r \<and> r \<le> 0x9F)"

text \<open>A continuation byte, \<^verbatim>\<open>0x80..0xBF\<close>.\<close>

definition is_cont :: "char \<Rightarrow> bool" where
  "is_cont c \<longleftrightarrow> 0x80 \<le> (of_char c :: nat) \<and> (of_char c :: nat) \<le> 0xBF"

text \<open>
  The range \<^verbatim>\<open>utf8\<close> accepts for the second byte after the lead byte \<open>b0\<close> (its table
  \<^verbatim>\<open>acceptRanges\<close>): it excludes overlong forms, surrogates and values above U+10FFFF.
\<close>

definition accept_lo :: "nat \<Rightarrow> nat" where
  "accept_lo b0 = (if b0 = 0xE0 then 0xA0 else if b0 = 0xF0 then 0x90 else 0x80)"

definition accept_hi :: "nat \<Rightarrow> nat" where
  "accept_hi b0 = (if b0 = 0xED then 0x9F else if b0 = 0xF4 then 0x8F else 0xBF)"

text \<open>
  \<^verbatim>\<open>utf8.DecodeRuneInString\<close>: the first rune of the string and its width in bytes;
  \<open>(RuneError, 0)\<close> for the empty string and \<open>(RuneError, 1)\<close> for an invalid encoding.
  The masks \<^verbatim>\<open>b & 0x1F\<close>, \<^verbatim>\<open>b & 0x0F\<close>, \<^verbatim>\<open>b & 0x07\<close> and \<^verbatim>\<open>b & 0x3F\<close> are remainders, the
  shifts are multiplications.
\<close>

fun DecodeRuneInString :: "string \<Rightarrow> rune \<times> nat" where
  "DecodeRuneInString [] = (RuneError, 0)"
| "DecodeRuneInString (c0 # cs) =
     (let b0 = (of_char c0 :: nat) in
      if b0 < 0x80 then (b0, 1)
      else if b0 < 0xC2 \<or> 0xF4 < b0 then (RuneError, 1)
      else (case cs of
          [] \<Rightarrow> (RuneError, 1)
        | c1 # cs1 \<Rightarrow>
            let b1 = (of_char c1 :: nat) in
            if b1 < accept_lo b0 \<or> accept_hi b0 < b1 then (RuneError, 1)
            else if b0 < 0xE0 then ((b0 mod 32) * 64 + b1 mod 64, 2)
            else (case cs1 of
                [] \<Rightarrow> (RuneError, 1)
              | c2 # cs2 \<Rightarrow>
                  let b2 = (of_char c2 :: nat) in
                  if \<not> is_cont c2 then (RuneError, 1)
                  else if b0 < 0xF0 then ((b0 mod 16) * 4096 + (b1 mod 64) * 64 + b2 mod 64, 3)
                  else (case cs2 of
                      [] \<Rightarrow> (RuneError, 1)
                    | c3 # cs3 \<Rightarrow>
                        let b3 = (of_char c3 :: nat) in
                        if \<not> is_cont c3 then (RuneError, 1)
                        else ((b0 mod 8) * 262144 + (b1 mod 64) * 4096 + (b2 mod 64) * 64
                              + b3 mod 64, 4)))))"

text \<open>
  \<^verbatim>\<open>utf8.AppendRune\<close>, which \<^verbatim>\<open>strings.Builder.WriteRune\<close> calls: the UTF-8 encoding of a
  rune; a surrogate half or a rune out of range is written as U+FFFD.
\<close>

definition EncodeRune :: "rune \<Rightarrow> string" where
  "EncodeRune r =
     (if r \<le> 0x7F then [char_of r]
      else if r \<le> 0x7FF then [char_of (0xC0 + r div 64), char_of (0x80 + r mod 64)]
      else if 0x10FFFF < r \<or> (0xD800 \<le> r \<and> r \<le> 0xDFFF) then [CHR 0xEF, CHR 0xBF, CHR 0xBD]
      else if r \<le> 0xFFFF then
        [char_of (0xE0 + r div 4096), char_of (0x80 + (r div 64) mod 64), char_of (0x80 + r mod 64)]
      else
        [char_of (0xF0 + r div 262144), char_of (0x80 + (r div 4096) mod 64),
         char_of (0x80 + (r div 64) mod 64), char_of (0x80 + r mod 64)])"

text \<open>
  The runes that \<^verbatim>\<open>for _, r := range s\<close> visits: each step decodes one rune and advances
  by its width; an invalid byte yields U+FFFD and advances by one byte.
\<close>

fun range_runes :: "string \<Rightarrow> rune list" where
  "range_runes [] = []"
| "range_runes (c # cs) =
     (case DecodeRuneInString (c # cs) of (r, w) \<Rightarrow> r # range_runes (drop (w - 1) cs))"

text \<open>
  \<^verbatim>\<open>utf8.ValidString\<close> and \<^verbatim>\<open>utf8.Valid\<close>: the bytes consist entirely of valid encodings, that
  is, no decoding step answers \<open>(RuneError, 1)\<close>.
\<close>

fun ValidString :: "string \<Rightarrow> bool" where
  "ValidString [] = True"
| "ValidString (c # cs) =
     (case DecodeRuneInString (c # cs) of
        (r, w) \<Rightarrow> \<not> (r = RuneError \<and> w = 1) \<and> ValidString (drop (w - 1) cs))"

text \<open>
  \<^verbatim>\<open>strings.ToValidUTF8(s, replacement)\<close>: each run of invalid bytes is replaced by the
  replacement; \<open>invalid\<close> tells that the previous byte was part of such a run.
\<close>

fun toValid :: "string \<Rightarrow> bool \<Rightarrow> string \<Rightarrow> string" where
  "toValid replacement invalid [] = []"
| "toValid replacement invalid (c # cs) =
     (case DecodeRuneInString (c # cs) of
        (r, w) \<Rightarrow>
          if r = RuneError \<and> w = 1
          then (if invalid then [] else replacement) @ toValid replacement True cs
          else take w (c # cs) @ toValid replacement False (drop (w - 1) cs))"

definition ToValidUTF8 :: "string \<Rightarrow> string \<Rightarrow> string" where
  "ToValidUTF8 s replacement = toValid replacement False s"

text \<open>\<^verbatim>\<open>strings.ContainsRune\<close>: the code point is within the string.\<close>

definition ContainsRune :: "string \<Rightarrow> rune \<Rightarrow> bool" where
  "ContainsRune s r \<longleftrightarrow> r \<in> set (range_runes s)"

subsection \<open>Content normalizer\<close>

text \<open>The literal \<^verbatim>\<open>"\r\n\t"\<close>.\<close>

definition crlftab :: string where
  "crlftab = [CHR 0x0D, CHR 0x0A, CHR 0x09]"

text \<open>
  \<^verbatim>\<open>isValidUTF8String\<close> of package \<^verbatim>\<open>openai_responses\<close> (convert.go): the loop over the
  runes answers false at the first invalid rune or control character other than CR, LF
  and TAB; after the loop the answer is \<^verbatim>\<open>utf8.ValidString(s)\<close>.
\<close>

fun isValidLoop :: "rune list \<Rightarrow> bool" where
  "isValidLoop [] = True"
| "isValidLoop (r # rs) =
     (if \<not> ValidRune r then False
      else if IsControl r \<and> \<not> ContainsRune crlftab r then False
      else isValidLoop rs)"

definition isValidUTF8String :: "string \<Rightarrow> bool" where
  "isValidUTF8String s = (if isValidLoop (range_runes s) then ValidString s else False)"

text \<open>
  \<^verbatim>\<open>isValidUTF8String\<close> of package \<^verbatim>\<open>claude\<close> (convert_responses.go) only asks for a valid
  encoding.
\<close>

definition claude_isValidUTF8String :: "string \<Rightarrow> bool" where
  "claude_isValidUTF8String s = ValidString s"

text \<open>\<^verbatim>\<open>isValidUTF8Bytes\<close>, the same in both packages.\<close>

definition isValidUTF8Bytes :: "string \<Rightarrow> bool" where
  "isValidUTF8Bytes b = ValidString b"

text \<open>
  \<^verbatim>\<open>cleanInvalidUTF8Chars\<close>, the same in both packages: the loop over the runes skips an
  invalid rune and a control character other than CR, LF and TAB, and writes every other
  rune to the builder \<open>result\<close>.
\<close>

fun cleanLoop :: "rune list \<Rightarrow> string \<Rightarrow> string" where
  "cleanLoop [] result = result"
| "cleanLoop (r # rs) result =
     (if \<not> ValidRune r then cleanLoop rs result
      else if IsControl r \<and> \<not> ContainsRune crlftab r then cleanLoop rs result
      else cleanLoop rs (result @ EncodeRune r))"

definition cleanInvalidUTF8Chars :: "string \<Rightarrow> string" where
  "cleanInvalidUTF8Chars s = cleanLoop (range_runes s) []"

text \<open>\<^verbatim>\<open>cleanInvalidUTF8Bytes\<close>, the same in both packages.\<close>

definition cleanInvalidUTF8Bytes :: "string \<Rightarrow> string" where
  "cleanInvalidUTF8Bytes b = ToValidUTF8 b []"


text \<open>A rune that \<^verbatim>\<open>cleanInvalidUTF8Chars\<close> writes to its result.\<close>

definition keepRune :: "rune \<Rightarrow> bool" where
  "keepRune r \<longleftrightarrow> ValidRune r \<and> (IsControl r \<longrightarrow> ContainsRune crlftab r)"

subsection \<open>Errors, integers and dynamic values\<close>

text \<open>
  A Go \<^verbatim>\<open>error\<close>: \<^verbatim>\<open>errors.New(msg)\<close> and \<^verbatim>\<open>fmt.Errorf(msg)\<close> are \<open>Error msg\<close>;
  \<^verbatim>\<open>fmt.Errorf("msg: %w", err)\<close> is \<open>Wrap msg err\<close>.
\<close>

datatype go_error = Error string | Wrap string go_error

text \<open>
  \<^verbatim>\<open>types.NewAPIError\<close>, as the handlers build it: the cause and the name of the error
  code.
\<close>

datatype api_error = NewError go_error string

type_synonym go_int = "64 word"

text \<open>
  A \<^verbatim>\<open>float64\<close> is only ever copied by the translated code: it is its bit pattern.
\<close>

type_synonym float64 = "64 word"

text \<open>
  A value of type \<^verbatim>\<open>any\<close> as the JSON decoder produces it (\<^verbatim>\<open>nil\<close>, \<^verbatim>\<open>string\<close>, \<^verbatim>\<open>bool\<close>,
  a number, \<^verbatim>\<open>[]interface{}\<close>, \<^verbatim>\<open>map[string]interface{}\<close>), and \<open>AnyNilSlice\<close> for a
  \<^verbatim>\<open>nil\<close> slice of maps held in an interface, which the content converter can return.
  A number is kept as its literal.  A map is its list of entries.
\<close>

datatype any =
    AnyNil
  | AnyString string
  | AnyBool bool
  | AnyNumber string
  | AnyList "any list"
  | AnyMap "(string \<times> any) list"
  | AnyNilSlice

subsection \<open>The data transfer objects\<close>

text \<open>
  Package \<^verbatim>\<open>dto\<close> is not among the translated files.  Each record has the fields that the
  translated functions read or write, under the Go name behind a prefix that tells the
  records apart.  A \<open>zero_\<close> constant is the Go zero value that a composite literal starts
  from.
\<close>

record Usage =
  u_PromptTokens :: go_int
  u_CompletionTokens :: go_int
  u_TotalTokens :: go_int
  u_InputTokens :: go_int
  u_OutputTokens :: go_int
  u_PromptTokensDetails_CachedTokens :: go_int
  u_InputTokensDetails :: "go_int option"  \<comment> \<open>\<^verbatim>\<open>CachedTokens\<close> behind the pointer\<close>

definition zero_Usage :: Usage where
  "zero_Usage = \<lparr>u_PromptTokens = 0, u_CompletionTokens = 0, u_TotalTokens = 0,
     u_InputTokens = 0, u_OutputTokens = 0, u_PromptTokensDetails_CachedTokens = 0,
     u_InputTokensDetails = None\<rparr>"

record ResponsesOutputContent =
  roc_Type :: string
  roc_Text :: string

record ResponsesOutput =
  ro_Type :: string
  ro_Role :: string
  ro_Content :: "ResponsesOutputContent list"

record OpenAIResponsesResponse =
  rr_ID :: string
  rr_Model :: string
  rr_Status :: string
  rr_CreatedAt :: go_int
  rr_Usage :: "Usage option"
  rr_Output :: "ResponsesOutput list"

record ResponsesStreamResponse =
  rs_Type :: string
  rs_Response :: "OpenAIResponsesResponse option"
  rs_Delta :: string
  rs_Item :: "ResponsesOutput option"

record ClaudeUsage =
  cu_InputTokens :: go_int
  cu_OutputTokens :: go_int

record ClaudeMediaMessage =
  cm_Type :: string
  cm_Id :: string
  cm_Model :: string
  cm_Role :: string
  cm_Usage :: "ClaudeUsage option"
  cm_Text :: "string option"
  cm_StopReason :: "string option"

definition zero_ClaudeMediaMessage :: ClaudeMediaMessage where
  "zero_ClaudeMediaMessage = \<lparr>cm_Type = [], cm_Id = [], cm_Model = [], cm_Role = [],
     cm_Usage = None, cm_Text = None, cm_StopReason = None\<rparr>"

record ClaudeResponse =
  cr_Id :: string
  cr_Type :: string
  cr_Role :: string
  cr_Content :: "ClaudeMediaMessage list"
  cr_Model :: string
  cr_StopReason :: string
  cr_Index :: "go_int option"
  cr_ContentBlock :: "ClaudeMediaMessage option"
  cr_Delta :: "ClaudeMediaMessage option"
  cr_Message :: "ClaudeMediaMessage option"
  cr_Usage :: "ClaudeUsage option"

definition zero_ClaudeResponse :: ClaudeResponse where
  "zero_ClaudeResponse = \<lparr>cr_Id = [], cr_Type = [], cr_Role = [], cr_Content = [],
     cr_Model = [], cr_StopReason = [], cr_Index = None, cr_ContentBlock = None,
     cr_Delta = None, cr_Message = None, cr_Usage = None\<rparr>"

text \<open>
  Modelled from the spec: \<^verbatim>\<open>SetIndex\<close> is a method of \<^verbatim>\<open>dto.ClaudeResponse\<close>, declared in
  package \<^verbatim>\<open>dto\<close>; the spec has every frame of a content block carry the block's index.
\<close>

definition SetIndex :: "ClaudeResponse \<Rightarrow> go_int \<Rightarrow> ClaudeResponse" where
  "SetIndex resp i = resp\<lparr>cr_Index := Some i\<rparr>"

record ChatCompletionsStreamResponseChoiceDelta =
  csd_Role :: string
  csd_Content :: "string option"

definition zero_ChoiceDelta :: ChatCompletionsStreamResponseChoiceDelta where
  "zero_ChoiceDelta = \<lparr>csd_Role = [], csd_Content = None\<rparr>"

record ChatCompletionsStreamResponseChoice =
  csc_Index :: go_int
  csc_Delta :: ChatCompletionsStreamResponseChoiceDelta
  csc_FinishReason :: "string option"

record ChatCompletionsStreamResponse =
  cs_Id :: string
  cs_Object :: string
  cs_Created :: go_int
  cs_Model :: string
  cs_Choices :: "ChatCompletionsStreamResponseChoice list"
  cs_Usage :: "Usage option"

text \<open>
  What a handler writes to the client, in the order of the writes: a Messages frame with
  its \<^verbatim>\<open>event:\<close> line (\<^verbatim>\<open>sendClaudeStreamData\<close> of package \<^verbatim>\<open>openai_responses\<close>), a Messages
  frame with the \<^verbatim>\<open>data:\<close> line only (\<^verbatim>\<open>sendClaudeStreamData\<close> of package \<^verbatim>\<open>claude\<close>), or a
  Chat chunk (\<^verbatim>\<open>sendChatStreamData\<close>).  The frame is the object handed to \<^verbatim>\<open>json.Marshal\<close>;
  its serialisation is the codec's.
\<close>

datatype sse_frame =
    EventFrame string ClaudeResponse
  | DataFrame ClaudeResponse
  | ChatFrame ChatCompletionsStreamResponse

type_synonym writer = "sse_frame list"

text \<open>
  The fields of \<^verbatim>\<open>relaycommon.RelayInfo\<close> in use.  \<open>info_BuiltInTools\<close> is
  \<^verbatim>\<open>ResponsesUsageInfo.BuiltInTools\<close>: \<open>None\<close> when either is \<^verbatim>\<open>nil\<close>, and per tool type the
  \<^verbatim>\<open>CallCount\<close> of the entry (no entry for a missing or \<^verbatim>\<open>nil\<close> one).
\<close>

datatype relay_mode = RelayModeChatCompletions | RelayModeResponses | RelayModeOther nat

record RelayInfo =
  info_UpstreamModelName :: string
  info_OriginModelName :: string
  info_RelayMode :: relay_mode
  info_PromptTokens :: go_int
  info_ResponseBody :: string
  info_BuiltInTools :: "(string \<Rightarrow> go_int option) option"

text \<open>
  An HTTP response: \<open>None\<close> for a \<^verbatim>\<open>nil\<close> body, else the data payloads that the stream
  scanner reads from the body, in order.
\<close>

record http_Response =
  resp_Body :: "string list option"

subsection \<open>Status to finish reason and stop reason\<close>

text \<open>\<^verbatim>\<open>extractFinishReason\<close> (convert.go).\<close>

definition extractFinishReason :: "string \<Rightarrow> string" where
  "extractFinishReason status =
     (if status = ''completed'' then ''stop''
      else if status = ''incomplete'' then ''length''
      else if status = ''failed'' then ''error''
      else if status = ''cancelled'' then ''stop''
      else ''stop'')"

text \<open>\<^verbatim>\<open>extractFinishReasonFromResponses\<close> (package \<^verbatim>\<open>claude\<close>, convert_responses.go).\<close>

definition extractFinishReasonFromResponses :: "string \<Rightarrow> string" where
  "extractFinishReasonFromResponses status =
     (if status = ''completed'' then ''stop''
      else if status = ''incomplete'' then ''length''
      else if status = ''failed'' then ''error''
      else if status = ''cancelled'' then ''stop''
      else ''stop'')"

text \<open>\<^verbatim>\<open>extractClaudeStopReason\<close> (claude_handler.go).\<close>

definition extractClaudeStopReason :: "string \<Rightarrow> string" where
  "extractClaudeStopReason status =
     (if status = ''completed'' then ''end_turn''
      else if status = ''incomplete'' then ''max_tokens''
      else ''end_turn'')"

subsection \<open>Text of a response's output\<close>

text \<open>
  \<^verbatim>\<open>extractContentFromOutput\<close>: the two nested loops append to \<open>contentBuilder\<close>.  The inner
  loop is shared; it takes the one block type that the declaration accepts.
\<close>

fun appendBlocks :: "string \<Rightarrow> ResponsesOutputContent list \<Rightarrow> string \<Rightarrow> string" where
  "appendBlocks ty [] contentBuilder = contentBuilder"
| "appendBlocks ty (contentItem # rest) contentBuilder =
     (if roc_Type contentItem = ty
      then appendBlocks ty rest (contentBuilder @ roc_Text contentItem)
      else appendBlocks ty rest contentBuilder)"

fun appendItems :: "string \<Rightarrow> ResponsesOutput list \<Rightarrow> string \<Rightarrow> string" where
  "appendItems ty [] contentBuilder = contentBuilder"
| "appendItems ty (item # rest) contentBuilder =
     (if ro_Type item = ''message'' \<and> ro_Role item = ''assistant''
      then appendItems ty rest (appendBlocks ty (ro_Content item) contentBuilder)
      else appendItems ty rest contentBuilder)"

text \<open>The declaration at line 318 of convert.go.\<close>

definition extractContentFromOutput :: "ResponsesOutput list \<Rightarrow> string" where
  "extractContentFromOutput output = appendItems ''output_text'' output []"

text \<open>The second declaration in convert.go, at line 678.\<close>

definition extractContentFromOutput_678 :: "ResponsesOutput list \<Rightarrow> string" where
  "extractContentFromOutput_678 output = appendItems ''text'' output []"

text \<open>The declaration of package \<^verbatim>\<open>claude\<close> (convert_responses.go, line 314).\<close>

definition claude_extractContentFromOutput :: "ResponsesOutput list \<Rightarrow> string" where
  "claude_extractContentFromOutput output = appendItems ''output_text'' output []"


subsection \<open>Usage reconciliation at the end of a stream\<close>

text \<open>
  The statements after the scanner loop, the same in the three stream handlers
  (claude_handler.go lines 177 to 192, the Chat handler lines 424 to 437 of its file,
  convert_responses.go lines 425 to 438).  \<open>CountTextToken\<close> is \<^verbatim>\<open>service.CountTextToken\<close>,
  the tokenizer, a parameter.
\<close>

definition reconcileUsage ::
  "(string \<Rightarrow> string \<Rightarrow> go_int) \<Rightarrow> RelayInfo \<Rightarrow> string \<Rightarrow> Usage \<Rightarrow> Usage" where
  "reconcileUsage CountTextToken info tempStr usage =
     (let usage1 =
            (if u_CompletionTokens usage = 0
             then (if length tempStr > 0
                   then usage\<lparr>u_CompletionTokens :=
                          CountTextToken tempStr (info_UpstreamModelName info)\<rparr>
                   else usage)
             else usage);
          usage2 =
            (if u_PromptTokens usage1 = 0 \<and> u_CompletionTokens usage1 \<noteq> 0
             then usage1\<lparr>u_PromptTokens := info_PromptTokens info\<rparr>
             else usage1)
      in usage2\<lparr>u_TotalTokens := u_PromptTokens usage2 + u_CompletionTokens usage2\<rparr>)"

text \<open>
  The update of the running usage from the usage of a terminal event, the same three
  conditional assignments in the three handlers.
\<close>

definition captureUsage :: "Usage \<Rightarrow> Usage \<Rightarrow> Usage" where
  "captureUsage usage ru =
     (let usage1 = (if u_InputTokens ru \<noteq> 0
                    then usage\<lparr>u_PromptTokens := u_InputTokens ru\<rparr> else usage);
          usage2 = (if u_OutputTokens ru \<noteq> 0
                    then usage1\<lparr>u_CompletionTokens := u_OutputTokens ru\<rparr> else usage1)
      in (if u_TotalTokens ru \<noteq> 0
          then usage2\<lparr>u_TotalTokens := u_TotalTokens ru\<rparr> else usage2))"

text \<open>
  Modelled from the spec: \<^verbatim>\<open>helper.StreamScannerHandler\<close> is declared in package
  \<^verbatim>\<open>relay/helper\<close>; by the spec the scanner hands the frames to the callback one at a time,
  in order, each fully handled before the next is read, until the stream ends.  The
  callback answers whether to go on.
\<close>

fun StreamScannerHandler :: "('s \<Rightarrow> string \<Rightarrow> 's \<times> bool) \<Rightarrow> 's \<Rightarrow> string list \<Rightarrow> 's" where
  "StreamScannerHandler callback st [] = st"
| "StreamScannerHandler callback st (d # ds) =
     (case callback st d of
        (st', continue) \<Rightarrow> if continue then StreamScannerHandler callback st' ds else st')"

subsection \<open>Responses stream to Messages stream, package \<^verbatim>\<open>openai_responses\<close>\<close>

text \<open>
  The senders of claude_handler.go.  \<^verbatim>\<open>sendClaudeStreamData\<close> writes the \<^verbatim>\<open>event:\<close> line with
  the frame's type and the \<^verbatim>\<open>data:\<close> line with the frame.
\<close>

definition sendClaudeStreamData :: "writer \<Rightarrow> ClaudeResponse \<Rightarrow> writer" where
  "sendClaudeStreamData w response = w @ [EventFrame (cr_Type response) response]"

definition sendClaudeMessageStart :: "writer \<Rightarrow> string \<Rightarrow> string \<Rightarrow> writer" where
  "sendClaudeMessageStart w ident model =
     (let usage = \<lparr>cu_InputTokens = 0, cu_OutputTokens = 0\<rparr>;
          message = zero_ClaudeMediaMessage\<lparr>cm_Type := ''message'', cm_Model := model,
                      cm_Role := ''assistant'', cm_Usage := Some usage\<rparr>;
          resp = zero_ClaudeResponse\<lparr>cr_Type := ''message_start'', cr_Message := Some message,
                      cr_Usage := Some usage\<rparr>
      in sendClaudeStreamData w resp)"

definition sendClaudeContentBlockStart :: "writer \<Rightarrow> go_int \<Rightarrow> writer" where
  "sendClaudeContentBlockStart w index =
     (let resp = zero_ClaudeResponse\<lparr>cr_Type := ''content_block_start'',
                   cr_ContentBlock := Some (zero_ClaudeMediaMessage\<lparr>cm_Type := ''text'',
                      cm_Text := Some []\<rparr>)\<rparr>
      in sendClaudeStreamData w (SetIndex resp index))"

definition sendClaudeContentBlockDelta :: "writer \<Rightarrow> go_int \<Rightarrow> string \<Rightarrow> writer" where
  "sendClaudeContentBlockDelta w index delta =
     (let resp = zero_ClaudeResponse\<lparr>cr_Type := ''content_block_delta'',
                   cr_Delta := Some (zero_ClaudeMediaMessage\<lparr>cm_Type := ''text_delta'',
                      cm_Text := Some delta\<rparr>)\<rparr>
      in sendClaudeStreamData w (SetIndex resp index))"

definition sendClaudeContentBlockStop :: "writer \<Rightarrow> go_int \<Rightarrow> writer" where
  "sendClaudeContentBlockStop w index =
     (let resp = zero_ClaudeResponse\<lparr>cr_Type := ''content_block_stop''\<rparr>
      in sendClaudeStreamData w (SetIndex resp index))"

definition sendClaudeMessageDelta :: "writer \<Rightarrow> string \<Rightarrow> Usage option \<Rightarrow> writer" where
  "sendClaudeMessageDelta w stopReason usage =
     (let outputTokens = (case usage of None \<Rightarrow> 0 | Some u \<Rightarrow> u_OutputTokens u);
          resp = zero_ClaudeResponse\<lparr>cr_Type := ''message_delta'',
                   cr_Delta := Some (zero_ClaudeMediaMessage\<lparr>cm_StopReason := Some stopReason\<rparr>),
                   cr_Usage := Some \<lparr>cu_InputTokens = 0, cu_OutputTokens = outputTokens\<rparr>\<rparr>
      in sendClaudeStreamData w resp)"

definition sendClaudeMessageStop :: "writer \<Rightarrow> writer" where
  "sendClaudeMessageStop w =
     sendClaudeStreamData w (zero_ClaudeResponse\<lparr>cr_Type := ''message_stop''\<rparr>)"

text \<open>The variables that the callback of \<^verbatim>\<open>ResponsesToClaudeStreamHandler\<close> closes over.\<close>

record claude_stream_state =
  st_usage :: Usage
  st_responseTextBuilder :: string
  st_fullStreamResponse :: string
  st_responseID :: string
  st_messageStartSent :: bool
  st_writer :: writer

text \<open>
  The callback of \<^verbatim>\<open>ResponsesToClaudeStreamHandler\<close> (claude_handler.go, lines 117 to 172).
  \<open>UnmarshalJsonStr\<close> is \<^verbatim>\<open>common.UnmarshalJsonStr\<close> into a \<^verbatim>\<open>dto.ResponsesStreamResponse\<close>, a
  parameter; a frame that does not parse is logged and skipped.
\<close>

definition claudeStreamCallback ::
  "(string \<Rightarrow> go_error + ResponsesStreamResponse) \<Rightarrow> RelayInfo
   \<Rightarrow> claude_stream_state \<Rightarrow> string \<Rightarrow> claude_stream_state \<times> bool" where
  "claudeStreamCallback UnmarshalJsonStr info st dat =
     (let st0 = st\<lparr>st_fullStreamResponse := st_fullStreamResponse st @ dat @ [CHR 0x0A]\<rparr> in
      case UnmarshalJsonStr dat of
        Inl err \<Rightarrow> (st0, True)
      | Inr streamResponse \<Rightarrow>
          let st1 = (case rs_Response streamResponse of
                       None \<Rightarrow> st0
                     | Some r \<Rightarrow> if rr_ID r \<noteq> [] then st0\<lparr>st_responseID := rr_ID r\<rparr> else st0);
              st2 = (if \<not> st_messageStartSent st1 \<and> st_responseID st1 \<noteq> []
                     then st1\<lparr>st_writer :=
                                sendClaudeContentBlockStart
                                  (sendClaudeMessageStart (st_writer st1) (st_responseID st1)
                                     (info_UpstreamModelName info)) 0,
                              st_messageStartSent := True\<rparr>
                     else st1);
              st3 = (if rs_Type streamResponse = ''response.output_text.delta''
                        \<and> rs_Delta streamResponse \<noteq> []
                     then st2\<lparr>st_writer :=
                                sendClaudeContentBlockDelta (st_writer st2) 0 (rs_Delta streamResponse),
                              st_responseTextBuilder :=
                                st_responseTextBuilder st2 @ rs_Delta streamResponse\<rparr>
                     else st2);
              st4 = (if rs_Type streamResponse = ''response.done''
                     then (case rs_Response streamResponse of
                             None \<Rightarrow> st3
                           | Some r \<Rightarrow>
                               st3\<lparr>st_writer :=
                                     sendClaudeMessageStop
                                       (sendClaudeMessageDelta
                                          (sendClaudeContentBlockStop (st_writer st3) 0)
                                          ''end_turn'' (rr_Usage r)),
                                   st_usage :=
                                     (case rr_Usage r of
                                        None \<Rightarrow> st_usage st3
                                      | Some ru \<Rightarrow> captureUsage (st_usage st3) ru)\<rparr>)
                     else st3)
          in (st4, True))"

text \<open>
  \<^verbatim>\<open>ResponsesToClaudeStreamHandler\<close> (claude_handler.go): the usage or the error, what was
  written to the client after \<open>w\<close>, and the relay info with the collected body.
\<close>

definition ResponsesToClaudeStreamHandler ::
  "(string \<Rightarrow> go_error + ResponsesStreamResponse) \<Rightarrow> (string \<Rightarrow> string \<Rightarrow> go_int)
   \<Rightarrow> writer \<Rightarrow> RelayInfo \<Rightarrow> http_Response option
   \<Rightarrow> (api_error + Usage) \<times> writer \<times> RelayInfo" where
  "ResponsesToClaudeStreamHandler UnmarshalJsonStr CountTextToken w info resp =
     (case (case resp of None \<Rightarrow> None | Some r \<Rightarrow> resp_Body r) of
        None \<Rightarrow> (Inl (NewError (Error ''invalid response'') ''ErrorCodeBadResponse''), w, info)
      | Some body \<Rightarrow>
          let st = StreamScannerHandler (claudeStreamCallback UnmarshalJsonStr info)
                     \<lparr>st_usage = zero_Usage, st_responseTextBuilder = [],
                      st_fullStreamResponse = [], st_responseID = [],
                      st_messageStartSent = False, st_writer = w\<rparr> body;
              info' = info\<lparr>info_ResponseBody := st_fullStreamResponse st\<rparr>
          in (Inr (reconcileUsage CountTextToken info' (st_responseTextBuilder st) (st_usage st)),
              st_writer st, info'))"


subsection \<open>Responses stream to Messages stream, package \<^verbatim>\<open>claude\<close>\<close>

text \<open>
  \<^verbatim>\<open>ConvertResponsesStreamToClaudeStream\<close> (convert_responses.go, line 530): the frame for
  one event, or \<open>None\<close> for an event that is ignored.  The arguments \<open>responseID\<close> and
  \<open>model\<close> are not read, as in the source.
\<close>

definition ConvertResponsesStreamToClaudeStream ::
  "ResponsesStreamResponse option \<Rightarrow> string \<Rightarrow> string \<Rightarrow> ClaudeResponse option" where
  "ConvertResponsesStreamToClaudeStream responsesStreamResp responseID model =
     (case responsesStreamResp of
        None \<Rightarrow> None
      | Some ev \<Rightarrow>
          if rs_Type ev = ''response.created'' then
            (case rs_Response ev of
               None \<Rightarrow> None
             | Some r \<Rightarrow>
                 let claudeResp = zero_ClaudeResponse\<lparr>cr_Type := ''message_start'',
                        cr_Message := Some (zero_ClaudeMediaMessage\<lparr>cm_Type := ''message'',
                           cm_Id := rr_ID r, cm_Model := rr_Model r, cm_Role := ''assistant''\<rparr>)\<rparr>
                 in Some (case rr_Usage r of
                            None \<Rightarrow> claudeResp
                          | Some u \<Rightarrow> claudeResp\<lparr>cr_Usage :=
                               Some \<lparr>cu_InputTokens = u_InputTokens u,
                                     cu_OutputTokens = u_OutputTokens u\<rparr>\<rparr>))
          else if rs_Type ev = ''response.output_item.added'' then
            (case rs_Item ev of
               None \<Rightarrow> None
             | Some item \<Rightarrow>
                 if ro_Role item = ''assistant''
                 then Some (zero_ClaudeResponse\<lparr>cr_Type := ''content_block_start'',
                        cr_Index := Some 0,
                        cr_ContentBlock := Some (zero_ClaudeMediaMessage\<lparr>cm_Type := ''text'',
                           cm_Text := Some []\<rparr>)\<rparr>)
                 else None)
          else if rs_Type ev = ''response.output_text.delta''
                  \<or> rs_Type ev = ''response.content_part.delta'' then
            (if rs_Delta ev \<noteq> []
             then Some (zero_ClaudeResponse\<lparr>cr_Type := ''content_block_delta'',
                    cr_Index := Some 0,
                    cr_Delta := Some (zero_ClaudeMediaMessage\<lparr>cm_Type := ''text_delta'',
                       cm_Text := Some (rs_Delta ev)\<rparr>)\<rparr>)
             else None)
          else if rs_Type ev = ''response.output_item.done'' then
            Some (zero_ClaudeResponse\<lparr>cr_Type := ''content_block_stop'', cr_Index := Some 0\<rparr>)
          else if rs_Type ev = ''response.done'' \<or> rs_Type ev = ''response.completed'' then
            (case rs_Response ev of
               None \<Rightarrow> None
             | Some r \<Rightarrow>
                 let stopReason = extractFinishReasonFromResponses (rr_Status r);
                     claudeResp = zero_ClaudeResponse\<lparr>cr_Type := ''message_delta'',
                        cr_Delta := Some (zero_ClaudeMediaMessage\<lparr>cm_StopReason :=
                           Some stopReason\<rparr>)\<rparr>
                 in Some (case rr_Usage r of
                            None \<Rightarrow> claudeResp
                          | Some u \<Rightarrow> claudeResp\<lparr>cr_Usage :=
                               Some \<lparr>cu_InputTokens = u_InputTokens u,
                                     cu_OutputTokens = u_OutputTokens u\<rparr>\<rparr>))
          else None)"

text \<open>\<^verbatim>\<open>sendClaudeStreamData\<close> of package \<^verbatim>\<open>claude\<close>: the \<^verbatim>\<open>data:\<close> line only.\<close>

definition claude_sendClaudeStreamData :: "writer \<Rightarrow> ClaudeResponse option \<Rightarrow> writer" where
  "claude_sendClaudeStreamData w claudeResp =
     (case claudeResp of None \<Rightarrow> w | Some r \<Rightarrow> w @ [DataFrame r])"

text \<open>
  \<^verbatim>\<open>ClaudeResponseInfo\<close>, and with it the collected body and the writer: what the callback
  of the handler of package \<^verbatim>\<open>claude\<close> closes over.
\<close>

record ClaudeResponseInfo =
  ci_ResponseId :: string
  ci_Created :: go_int
  ci_Model :: string
  ci_ResponseText :: string
  ci_Usage :: Usage
  ci_fullStreamResponse :: string
  ci_writer :: writer

text \<open>The callback (convert_responses.go, lines 381 to 420).\<close>

definition claude_claudeStreamCallback ::
  "(string \<Rightarrow> go_error + ResponsesStreamResponse) \<Rightarrow> RelayInfo
   \<Rightarrow> ClaudeResponseInfo \<Rightarrow> string \<Rightarrow> ClaudeResponseInfo \<times> bool" where
  "claude_claudeStreamCallback UnmarshalJsonStr info claudeInfo dat =
     (let ci0 = (if length dat > 0
                 then claudeInfo\<lparr>ci_fullStreamResponse :=
                        ci_fullStreamResponse claudeInfo @ dat @ [CHR 0x0A]\<rparr>
                 else claudeInfo) in
      case UnmarshalJsonStr dat of
        Inl parseErr \<Rightarrow> (ci0, True)
      | Inr streamResponse \<Rightarrow>
          let claudeStreamResp =
                ConvertResponsesStreamToClaudeStream (Some streamResponse) (ci_ResponseId ci0)
                  (info_UpstreamModelName info);
              ci1 = (case claudeStreamResp of
                       None \<Rightarrow> ci0
                     | Some r \<Rightarrow> ci0\<lparr>ci_writer :=
                                  claude_sendClaudeStreamData (ci_writer ci0) claudeStreamResp\<rparr>);
              ci2 = (if rs_Type streamResponse = ''response.done'' then
                       (case rs_Response streamResponse of
                          None \<Rightarrow> ci1
                        | Some r \<Rightarrow>
                            (case rr_Usage r of
                               None \<Rightarrow> ci1
                             | Some ru \<Rightarrow> ci1\<lparr>ci_Usage := captureUsage (ci_Usage ci1) ru\<rparr>))
                     else if rs_Type streamResponse = ''response.output_text.delta'' then
                       ci1\<lparr>ci_ResponseText := ci_ResponseText ci1 @ rs_Delta streamResponse\<rparr>
                     else ci1)
          in (ci2, True))"

text \<open>
  \<^verbatim>\<open>ResponsesToClaudeStreamHandler\<close> of package \<^verbatim>\<open>claude\<close> (convert_responses.go, line 356).
  \<open>convertedFromClaude\<close> is the context's value for the key \<^verbatim>\<open>converted_from_claude\<close>,
  \<open>None\<close> when the key is not set.  \<open>ClaudeStreamHandler\<close> is the native stream handler,
  \<open>GetResponseID\<close> and \<open>GetTimestamp\<close> are the values of \<^verbatim>\<open>helper.GetResponseID(c)\<close> and
  \<^verbatim>\<open>common.GetTimestamp()\<close>: parameters.
\<close>

definition claude_ResponsesToClaudeStreamHandler ::
  "(string \<Rightarrow> go_error + ResponsesStreamResponse) \<Rightarrow> (string \<Rightarrow> string \<Rightarrow> go_int)
   \<Rightarrow> (writer \<Rightarrow> RelayInfo \<Rightarrow> string list \<Rightarrow> (api_error + Usage) \<times> writer \<times> RelayInfo)
   \<Rightarrow> string \<Rightarrow> go_int \<Rightarrow> bool option
   \<Rightarrow> writer \<Rightarrow> string list \<Rightarrow> RelayInfo
   \<Rightarrow> (api_error + Usage) \<times> writer \<times> RelayInfo" where
  "claude_ResponsesToClaudeStreamHandler UnmarshalJsonStr CountTextToken ClaudeStreamHandler
       GetResponseID GetTimestamp convertedFromClaude w body info =
     (if convertedFromClaude \<noteq> Some True then ClaudeStreamHandler w info body
      else
        let claudeInfo = StreamScannerHandler (claude_claudeStreamCallback UnmarshalJsonStr info)
                \<lparr>ci_ResponseId = GetResponseID, ci_Created = GetTimestamp,
                 ci_Model = info_UpstreamModelName info, ci_ResponseText = [],
                 ci_Usage = zero_Usage, ci_fullStreamResponse = [], ci_writer = w\<rparr> body;
            info' = info\<lparr>info_ResponseBody := ci_fullStreamResponse claudeInfo\<rparr>
        in (Inr (reconcileUsage CountTextToken info' (ci_ResponseText claudeInfo)
                   (ci_Usage claudeInfo)),
            ci_writer claudeInfo, info'))"

subsection \<open>Responses stream to Chat stream\<close>

text \<open>
  \<^verbatim>\<open>ConvertResponsesStreamToChatStream\<close> (convert.go, line 359): the chunk for one event, or
  \<open>None\<close> for an event that is ignored.
\<close>

definition ConvertResponsesStreamToChatStream ::
  "ResponsesStreamResponse option \<Rightarrow> string \<Rightarrow> string \<Rightarrow> ChatCompletionsStreamResponse option" where
  "ConvertResponsesStreamToChatStream responsesStreamResp responseID model =
     (case responsesStreamResp of
        None \<Rightarrow> None
      | Some ev \<Rightarrow>
          let currentID = (case rs_Response ev of
                             None \<Rightarrow> responseID
                           | Some r \<Rightarrow> if rr_ID r \<noteq> [] then rr_ID r else responseID);
              chatStreamResp0 = \<lparr>cs_Id = currentID, cs_Object = ''chat.completion.chunk'',
                 cs_Created = 0, cs_Model = model, cs_Choices = [], cs_Usage = None\<rparr>;
              chatStreamResp = (case rs_Response ev of
                                  None \<Rightarrow> chatStreamResp0
                                | Some r \<Rightarrow> chatStreamResp0\<lparr>cs_Created := rr_CreatedAt r\<rparr>)
          in
          if rs_Type ev = ''response.output_text.delta'' then
            (if rs_Delta ev \<noteq> []
             then Some (chatStreamResp\<lparr>cs_Choices := cs_Choices chatStreamResp @
                    [\<lparr>csc_Index = 0,
                      csc_Delta = zero_ChoiceDelta\<lparr>csd_Content := Some (rs_Delta ev)\<rparr>,
                      csc_FinishReason = None\<rparr>]\<rparr>)
             else None)
          else if rs_Type ev = ''response.output_item.added'' then
            (case rs_Item ev of
               None \<Rightarrow> None
             | Some item \<Rightarrow>
                 if ro_Role item = ''assistant''
                 then Some (chatStreamResp\<lparr>cs_Choices := cs_Choices chatStreamResp @
                        [\<lparr>csc_Index = 0,
                          csc_Delta = \<lparr>csd_Role = ''assistant'', csd_Content = Some []\<rparr>,
                          csc_FinishReason = None\<rparr>]\<rparr>)
                 else None)
          else if rs_Type ev = ''response.done'' then
            (case rs_Response ev of
               None \<Rightarrow> None
             | Some r \<Rightarrow>
                 let finishReason = extractFinishReason (rr_Status r);
                     withChoice = chatStreamResp\<lparr>cs_Choices := cs_Choices chatStreamResp @
                        [\<lparr>csc_Index = 0, csc_Delta = zero_ChoiceDelta,
                          csc_FinishReason = Some finishReason\<rparr>]\<rparr>
                 in Some (case rr_Usage r of
                            None \<Rightarrow> withChoice
                          | Some u \<Rightarrow> withChoice\<lparr>cs_Usage := Some u\<rparr>))
          else None)"

text \<open>\<^verbatim>\<open>sendChatStreamData\<close>.\<close>

definition sendChatStreamData :: "writer \<Rightarrow> ChatCompletionsStreamResponse \<Rightarrow> writer" where
  "sendChatStreamData w response = w @ [ChatFrame response]"

text \<open>
  Modelled from the spec: three constants of package \<^verbatim>\<open>dto\<close>, which is not among the
  translated files.  The spec names the event (\<^verbatim>\<open>output_item.done\<close> with a recognised
  tool-call item type); the item type and the tool type are the Responses dialect's names
  for the web search call and its tool.
\<close>

definition ResponsesOutputTypeItemDone :: string where
  "ResponsesOutputTypeItemDone = ''response.output_item.done''"

definition BuildInCallWebSearchCall :: string where
  "BuildInCallWebSearchCall = ''web_search_call''"

definition BuildInToolWebSearchPreview :: string where
  "BuildInToolWebSearchPreview = ''web_search_preview''"

text \<open>The variables that the callback of \<^verbatim>\<open>ResponsesToChatStreamHandler\<close> closes over.\<close>

record chat_stream_state =
  cst_usage :: Usage
  cst_responseTextBuilder :: string
  cst_fullStreamResponse :: string
  cst_responseID :: string
  cst_info :: RelayInfo
  cst_writer :: writer

text \<open>
  The usage of the terminal event as the Chat handler takes it: the three counters, and
  the cached tokens when the details are there.
\<close>

definition captureUsageCached :: "Usage \<Rightarrow> Usage \<Rightarrow> Usage" where
  "captureUsageCached usage ru =
     (let usage3 = captureUsage usage ru
      in (case u_InputTokensDetails ru of
            None \<Rightarrow> usage3
          | Some cached \<Rightarrow> usage3\<lparr>u_PromptTokensDetails_CachedTokens := cached\<rparr>))"

text \<open>The callback of \<^verbatim>\<open>ResponsesToChatStreamHandler\<close> (lines 358 to 419 of its file).\<close>

definition chatStreamCallback ::
  "(string \<Rightarrow> go_error + ResponsesStreamResponse)
   \<Rightarrow> chat_stream_state \<Rightarrow> string \<Rightarrow> chat_stream_state \<times> bool" where
  "chatStreamCallback UnmarshalJsonStr st dat =
     (let st0 = (if length dat > 0
                 then st\<lparr>cst_fullStreamResponse := cst_fullStreamResponse st @ dat @ [CHR 0x0A]\<rparr>
                 else st) in
      case UnmarshalJsonStr dat of
        Inl err \<Rightarrow> (st0, True)
      | Inr streamResponse \<Rightarrow>
          let st1 = (case rs_Response streamResponse of
                       None \<Rightarrow> st0
                     | Some r \<Rightarrow> if rr_ID r \<noteq> [] then st0\<lparr>cst_responseID := rr_ID r\<rparr> else st0);
              chatStreamResp =
                ConvertResponsesStreamToChatStream (Some streamResponse) (cst_responseID st1)
                  (info_UpstreamModelName (cst_info st1));
              st2 = (case chatStreamResp of
                       None \<Rightarrow> st1
                     | Some chunk \<Rightarrow> st1\<lparr>cst_writer := sendChatStreamData (cst_writer st1) chunk\<rparr>);
              st3 = (if rs_Type streamResponse = ''response.completed'' then
                       (case rs_Response streamResponse of
                          None \<Rightarrow> st2
                        | Some r \<Rightarrow>
                            (case rr_Usage r of
                               None \<Rightarrow> st2
                             | Some ru \<Rightarrow>
                                 st2\<lparr>cst_usage := captureUsageCached (cst_usage st2) ru\<rparr>))
                     else if rs_Type streamResponse = ''response.output_text.delta'' then
                       st2\<lparr>cst_responseTextBuilder :=
                             cst_responseTextBuilder st2 @ rs_Delta streamResponse\<rparr>
                     else if rs_Type streamResponse = ResponsesOutputTypeItemDone then
                       (case rs_Item streamResponse of
                          None \<Rightarrow> st2
                        | Some item \<Rightarrow>
                            if ro_Type item = BuildInCallWebSearchCall then
                              (case info_BuiltInTools (cst_info st2) of
                                 None \<Rightarrow> st2
                               | Some tools \<Rightarrow>
                                   (case tools BuildInToolWebSearchPreview of
                                      None \<Rightarrow> st2
                                    | Some callCount \<Rightarrow>
                                        st2\<lparr>cst_info := (cst_info st2)\<lparr>info_BuiltInTools :=
                                          Some (tools(BuildInToolWebSearchPreview
                                                   \<mapsto> callCount + 1))\<rparr>\<rparr>))
                            else st2)
                     else st2)
          in (st3, True))"

text \<open>\<^verbatim>\<open>ResponsesToChatStreamHandler\<close>.\<close>

definition ResponsesToChatStreamHandler ::
  "(string \<Rightarrow> go_error + ResponsesStreamResponse) \<Rightarrow> (string \<Rightarrow> string \<Rightarrow> go_int)
   \<Rightarrow> writer \<Rightarrow> RelayInfo \<Rightarrow> http_Response option
   \<Rightarrow> (api_error + Usage) \<times> writer \<times> RelayInfo" where
  "ResponsesToChatStreamHandler UnmarshalJsonStr CountTextToken w info resp =
     (case (case resp of None \<Rightarrow> None | Some r \<Rightarrow> resp_Body r) of
        None \<Rightarrow> (Inl (NewError (Error ''invalid response'') ''ErrorCodeBadResponse''), w, info)
      | Some body \<Rightarrow>
          let st = StreamScannerHandler (chatStreamCallback UnmarshalJsonStr)
                     \<lparr>cst_usage = zero_Usage, cst_responseTextBuilder = [],
                      cst_fullStreamResponse = [], cst_responseID = [],
                      cst_info = info, cst_writer = w\<rparr> body;
              info' = (cst_info st)\<lparr>info_ResponseBody := cst_fullStreamResponse st\<rparr>
          in (Inr (reconcileUsage CountTextToken info' (cst_responseTextBuilder st) (cst_usage st)),
              cst_writer st, info'))"

subsection \<open>Requests\<close>

record Message =
  msg_Role :: string
  msg_Content :: any

record GeneralOpenAIRequest =
  req_Model :: string
  req_Stream :: bool
  req_TopP :: float64
  req_User :: string
  req_Temperature :: "float64 option"
  req_MaxTokens :: "64 word"
  req_MaxCompletionTokens :: "64 word"
  req_ReasoningEffort :: string
  req_Messages :: "Message list"
  req_Tools :: "any list"
  req_ToolChoice :: any
  req_ParallelToolCalls :: "bool option"

record ClaudeMessage =
  cmsg_Role :: string
  cmsg_Content :: any

record ClaudeRequest =
  creq_Model :: string
  creq_Stream :: bool
  creq_TopP :: float64
  creq_Temperature :: "float64 option"
  creq_MaxTokens :: "64 word"
  creq_MaxTokensToSample :: "64 word"
  creq_TopK :: go_int
  creq_System :: any
  creq_Messages :: "ClaudeMessage list"
  creq_Tools :: any
  creq_ToolChoice :: any
  creq_StopSequences :: "string list"
  creq_Metadata :: "string option"

text \<open>\<^verbatim>\<open>dto.Input\<close>; the content is a \<^verbatim>\<open>json.RawMessage\<close>, \<open>None\<close> while it is \<^verbatim>\<open>nil\<close>.\<close>

record Input =
  in_Type :: string
  in_Role :: string
  in_Content :: "string option"

text \<open>
  \<^verbatim>\<open>dto.OpenAIResponsesRequest\<close>.  A \<^verbatim>\<open>json.RawMessage\<close> field is \<open>None\<close> while it is \<^verbatim>\<open>nil\<close>:
  the request then carries no such field.  \<open>rq_Reasoning\<close> is the effort of the
  \<^verbatim>\<open>dto.Reasoning\<close> behind the pointer.
\<close>

record OpenAIResponsesRequest =
  rq_Model :: string
  rq_Stream :: bool
  rq_TopP :: float64
  rq_User :: string
  rq_Temperature :: float64
  rq_MaxOutputTokens :: "64 word"
  rq_Reasoning :: "string option"
  rq_Instructions :: "string option"
  rq_Input :: "string option"
  rq_Tools :: "string option"
  rq_ToolChoice :: "string option"
  rq_ParallelToolCalls :: "string option"
  rq_Metadata :: "string option"

definition zero_OpenAIResponsesRequest :: OpenAIResponsesRequest where
  "zero_OpenAIResponsesRequest = \<lparr>rq_Model = [], rq_Stream = False, rq_TopP = 0, rq_User = [],
     rq_Temperature = 0, rq_MaxOutputTokens = 0, rq_Reasoning = None, rq_Instructions = None,
     rq_Input = None, rq_Tools = None, rq_ToolChoice = None, rq_ParallelToolCalls = None,
     rq_Metadata = None\<rparr>"

text \<open>
  What the translated code hands to \<^verbatim>\<open>json.Marshal\<close>: a dynamic value (a Go string is
  \<open>AnyString\<close>, a \<^verbatim>\<open>bool\<close> is \<open>AnyBool\<close>, the tools are an \<open>AnyList\<close>) or the list of inputs.
  \<^verbatim>\<open>json.Marshal\<close> itself is the parameter \<open>Marshal\<close> of the functions below, and
  \<open>ValidJSON s\<close> tells whether \<^verbatim>\<open>json.Unmarshal\<close> of \<open>s\<close> into an \<^verbatim>\<open>interface{}\<close> succeeds.
\<close>

datatype go_value = VAny any | VInputs "Input list"

type_synonym marshal = "go_value \<Rightarrow> go_error + string"

subsection \<open>Chat Completions request to Responses request (convert.go)\<close>

text \<open>\<^verbatim>\<open>extractSystemMessage\<close> (line 181).\<close>

fun extractSystemMessage :: "marshal \<Rightarrow> Message list \<Rightarrow> string" where
  "extractSystemMessage Marshal [] = []"
| "extractSystemMessage Marshal (message # rest) =
     (if msg_Role message = ''system'' then
        (case msg_Content message of
           AnyString str \<Rightarrow> str
         | content \<Rightarrow>
             (case Marshal (VAny content) of
                Inr contentBytes \<Rightarrow> contentBytes
              | Inl err \<Rightarrow> extractSystemMessage Marshal rest))
      else extractSystemMessage Marshal rest)"

text \<open>
  \<^verbatim>\<open>convertMessagesToInputs\<close> (line 204); \<open>inputs\<close> is the slice built so far.
\<close>

fun convertMessagesToInputsLoop :: "marshal \<Rightarrow> Message list \<Rightarrow> Input list \<Rightarrow> go_error + Input list" where
  "convertMessagesToInputsLoop Marshal [] inputs = Inr inputs"
| "convertMessagesToInputsLoop Marshal (message # rest) inputs =
     (if msg_Role message = ''system'' then convertMessagesToInputsLoop Marshal rest inputs
      else
        let input = \<lparr>in_Type = ''message'', in_Role = msg_Role message, in_Content = None\<rparr> in
        (case msg_Content message of
           AnyNil \<Rightarrow> convertMessagesToInputsLoop Marshal rest (inputs @ [input])
         | AnyString str \<Rightarrow>
             let str' = (if \<not> isValidUTF8String str then cleanInvalidUTF8Chars str else str) in
             (case Marshal (VAny (AnyString str')) of
                Inl err \<Rightarrow> Inl (Wrap ''failed to marshal string content'' err)
              | Inr contentBytes \<Rightarrow>
                  convertMessagesToInputsLoop Marshal rest
                    (inputs @ [input\<lparr>in_Content := Some contentBytes\<rparr>]))
         | content \<Rightarrow>
             (case Marshal (VAny content) of
                Inl err \<Rightarrow> Inl (Wrap ''failed to marshal complex content'' err)
              | Inr contentBytes \<Rightarrow>
                  if \<not> isValidUTF8Bytes contentBytes
                  then Inl (Error ''generated JSON contains invalid UTF-8 characters'')
                  else convertMessagesToInputsLoop Marshal rest
                         (inputs @ [input\<lparr>in_Content := Some contentBytes\<rparr>]))))"

definition convertMessagesToInputs :: "marshal \<Rightarrow> Message list \<Rightarrow> go_error + Input list" where
  "convertMessagesToInputs Marshal messages = convertMessagesToInputsLoop Marshal messages []"

text \<open>
  The tail of the three request translators that is the same in all of them: the inputs,
  when there are any, are marshalled into the request.
\<close>

definition setInput :: "marshal \<Rightarrow> Input list \<Rightarrow> OpenAIResponsesRequest \<Rightarrow> go_error + OpenAIResponsesRequest" where
  "setInput Marshal inputs responsesReq =
     (if length inputs > 0 then
        (case Marshal (VInputs inputs) of
           Inl err \<Rightarrow> Inl (Wrap ''failed to marshal inputs'' err)
         | Inr inputData \<Rightarrow> Inr (responsesReq\<lparr>rq_Input := Some inputData\<rparr>))
      else Inr responsesReq)"

text \<open>
  And the tail of the two translators that read a \<^verbatim>\<open>dto.GeneralOpenAIRequest\<close>: tools, tool
  choice and parallel tool calls, each re-encoded when present.
\<close>

definition setTools :: "marshal \<Rightarrow> GeneralOpenAIRequest \<Rightarrow> OpenAIResponsesRequest \<Rightarrow> go_error + OpenAIResponsesRequest" where
  "setTools Marshal request responsesReq =
     (case (if length (req_Tools request) > 0 then
              (case Marshal (VAny (AnyList (req_Tools request))) of
                 Inl err \<Rightarrow> Inl (Wrap ''failed to marshal tools'' err)
               | Inr toolsData \<Rightarrow> Inr (responsesReq\<lparr>rq_Tools := Some toolsData\<rparr>))
            else Inr responsesReq) of
        Inl err \<Rightarrow> Inl err
      | Inr req1 \<Rightarrow>
          (case (if req_ToolChoice request \<noteq> AnyNil then
                   (case Marshal (VAny (req_ToolChoice request)) of
                      Inl err \<Rightarrow> Inl (Wrap ''failed to marshal tool_choice'' err)
                    | Inr toolChoiceData \<Rightarrow> Inr (req1\<lparr>rq_ToolChoice := Some toolChoiceData\<rparr>))
                 else Inr req1) of
             Inl err \<Rightarrow> Inl err
           | Inr req2 \<Rightarrow>
               (case req_ParallelToolCalls request of
                  None \<Rightarrow> Inr req2
                | Some b \<Rightarrow>
                    (case Marshal (VAny (AnyBool b)) of
                       Inl err \<Rightarrow> Inl (Wrap ''failed to marshal parallel_tool_calls'' err)
                     | Inr parallelData \<Rightarrow>
                         Inr (req2\<lparr>rq_ParallelToolCalls := Some parallelData\<rparr>)))))"

text \<open>
  The head that these two translators share: the scalar fields, the token limit and the
  reasoning effort.
\<close>

definition copyScalars :: "GeneralOpenAIRequest \<Rightarrow> RelayInfo \<Rightarrow> OpenAIResponsesRequest" where
  "copyScalars request info =
     (let req0 = zero_OpenAIResponsesRequest\<lparr>rq_Model := info_UpstreamModelName info,
                   rq_Stream := req_Stream request, rq_TopP := req_TopP request,
                   rq_User := req_User request\<rparr>;
          req1 = (case req_Temperature request of
                    None \<Rightarrow> req0
                  | Some t \<Rightarrow> req0\<lparr>rq_Temperature := t\<rparr>);
          req2 = (if 0 < req_MaxTokens request
                  then req1\<lparr>rq_MaxOutputTokens := req_MaxTokens request\<rparr>
                  else if 0 < req_MaxCompletionTokens request
                  then req1\<lparr>rq_MaxOutputTokens := req_MaxCompletionTokens request\<rparr>
                  else req1)
      in (if req_ReasoningEffort request \<noteq> []
          then req2\<lparr>rq_Reasoning := Some (req_ReasoningEffort request)\<rparr>
          else req2))"

text \<open>\<^verbatim>\<open>ChatCompletionsToResponsesRequest\<close> (line 69).\<close>

definition ChatCompletionsToResponsesRequest ::
  "marshal \<Rightarrow> (string \<Rightarrow> bool) \<Rightarrow> GeneralOpenAIRequest option \<Rightarrow> RelayInfo
   \<Rightarrow> go_error + OpenAIResponsesRequest" where
  "ChatCompletionsToResponsesRequest Marshal ValidJSON chatRequest info =
     (case chatRequest of
        None \<Rightarrow> Inl (Error ''chat request is nil'')
      | Some request \<Rightarrow>
          if req_Model request = [] then Inl (Error ''model is required'')
          else
            let responsesReq = copyScalars request info;
                systemMessage = extractSystemMessage Marshal (req_Messages request)
            in
            (case (if systemMessage \<noteq> [] then
                     (if ValidJSON systemMessage
                      then Inr (responsesReq\<lparr>rq_Instructions := Some systemMessage\<rparr>)
                      else (case Marshal (VAny (AnyString systemMessage)) of
                              Inl err \<Rightarrow> Inl (Wrap ''failed to encode system message'' err)
                            | Inr encodedBytes \<Rightarrow>
                                Inr (responsesReq\<lparr>rq_Instructions := Some encodedBytes\<rparr>)))
                   else Inr responsesReq) of
               Inl err \<Rightarrow> Inl err
             | Inr req1 \<Rightarrow>
                 (case convertMessagesToInputs Marshal (req_Messages request) of
                    Inl err \<Rightarrow> Inl (Wrap ''failed to convert messages to inputs'' err)
                  | Inr inputs \<Rightarrow>
                      (case setInput Marshal inputs req1 of
                         Inl err \<Rightarrow> Inl err
                       | Inr req2 \<Rightarrow> setTools Marshal request req2))))"

subsection \<open>Request translation of package \<^verbatim>\<open>claude\<close> (convert_responses.go)\<close>

text \<open>\<^verbatim>\<open>extractSystemMessageFromClaude\<close> (line 167).\<close>

fun extractSystemMessageFromClaude :: "marshal \<Rightarrow> Message list \<Rightarrow> string" where
  "extractSystemMessageFromClaude Marshal [] = []"
| "extractSystemMessageFromClaude Marshal (message # rest) =
     (if msg_Role message = ''system'' then
        (case msg_Content message of
           AnyString str \<Rightarrow>
             (if \<not> claude_isValidUTF8String str then cleanInvalidUTF8Chars str else str)
         | content \<Rightarrow>
             (case Marshal (VAny content) of
                Inr contentBytes \<Rightarrow>
                  (if \<not> isValidUTF8Bytes contentBytes then cleanInvalidUTF8Bytes contentBytes
                   else contentBytes)
              | Inl err \<Rightarrow> extractSystemMessageFromClaude Marshal rest))
      else extractSystemMessageFromClaude Marshal rest)"

text \<open>\<^verbatim>\<open>convertClaudeMessagesToInputs\<close> of package \<^verbatim>\<open>claude\<close> (line 200).\<close>

fun claude_convertClaudeMessagesToInputsLoop ::
  "marshal \<Rightarrow> Message list \<Rightarrow> Input list \<Rightarrow> go_error + Input list" where
  "claude_convertClaudeMessagesToInputsLoop Marshal [] inputs = Inr inputs"
| "claude_convertClaudeMessagesToInputsLoop Marshal (message # rest) inputs =
     (if msg_Role message = ''system''
      then claude_convertClaudeMessagesToInputsLoop Marshal rest inputs
      else
        let input = \<lparr>in_Type = ''message'', in_Role = msg_Role message, in_Content = None\<rparr> in
        (case msg_Content message of
           AnyNil \<Rightarrow> claude_convertClaudeMessagesToInputsLoop Marshal rest (inputs @ [input])
         | AnyString str \<Rightarrow>
             let str' = (if \<not> claude_isValidUTF8String str then cleanInvalidUTF8Chars str
                         else str) in
             (case Marshal (VAny (AnyString str')) of
                Inl err \<Rightarrow> Inl (Wrap ''failed to marshal string content'' err)
              | Inr contentBytes \<Rightarrow>
                  claude_convertClaudeMessagesToInputsLoop Marshal rest
                    (inputs @ [input\<lparr>in_Content := Some contentBytes\<rparr>]))
         | content \<Rightarrow>
             (case Marshal (VAny content) of
                Inl err \<Rightarrow> Inl (Wrap ''failed to marshal complex content'' err)
              | Inr contentBytes \<Rightarrow>
                  if \<not> isValidUTF8Bytes contentBytes
                  then Inl (Error ''generated JSON contains invalid UTF-8 characters'')
                  else claude_convertClaudeMessagesToInputsLoop Marshal rest
                         (inputs @ [input\<lparr>in_Content := Some contentBytes\<rparr>]))))"

definition claude_convertClaudeMessagesToInputs ::
  "marshal \<Rightarrow> Message list \<Rightarrow> go_error + Input list" where
  "claude_convertClaudeMessagesToInputs Marshal messages =
     claude_convertClaudeMessagesToInputsLoop Marshal messages []"

text \<open>\<^verbatim>\<open>ClaudeMessagesToResponsesRequest\<close> of package \<^verbatim>\<open>claude\<close> (line 68).\<close>

definition claude_ClaudeMessagesToResponsesRequest ::
  "marshal \<Rightarrow> GeneralOpenAIRequest option \<Rightarrow> RelayInfo \<Rightarrow> go_error + OpenAIResponsesRequest" where
  "claude_ClaudeMessagesToResponsesRequest Marshal claudeRequest info =
     (case claudeRequest of
        None \<Rightarrow> Inl (Error ''claude request is nil'')
      | Some request \<Rightarrow>
          if req_Model request = [] then Inl (Error ''model is required'')
          else
            let responsesReq = copyScalars request info;
                systemMessage = extractSystemMessageFromClaude Marshal (req_Messages request)
            in
            (case (if systemMessage \<noteq> [] then
                     (case Marshal (VAny (AnyString systemMessage)) of
                        Inl err \<Rightarrow> Inl (Wrap ''failed to marshal instructions'' err)
                      | Inr instructionsBytes \<Rightarrow>
                          Inr (responsesReq\<lparr>rq_Instructions := Some instructionsBytes\<rparr>))
                   else Inr responsesReq) of
               Inl err \<Rightarrow> Inl err
             | Inr req1 \<Rightarrow>
                 (case claude_convertClaudeMessagesToInputs Marshal (req_Messages request) of
                    Inl err \<Rightarrow> Inl (Wrap ''failed to convert claude messages to inputs'' err)
                  | Inr inputs \<Rightarrow>
                      (case setInput Marshal inputs req1 of
                         Inl err \<Rightarrow> Inl err
                       | Inr req2 \<Rightarrow> setTools Marshal request req2))))"

subsection \<open>Messages request to Responses request, package \<^verbatim>\<open>openai_responses\<close>\<close>

text \<open>\<^verbatim>\<open>extractClaudeSystemMessage\<close>.\<close>

definition extractClaudeSystemMessage :: "marshal \<Rightarrow> any \<Rightarrow> go_error + string" where
  "extractClaudeSystemMessage Marshal system =
     (case system of
        AnyNil \<Rightarrow> Inr []
      | AnyString str \<Rightarrow>
          Inr (if \<not> isValidUTF8String str then cleanInvalidUTF8Chars str else str)
      | _ \<Rightarrow>
          (case Marshal (VAny system) of
             Inl err \<Rightarrow> Inl (Wrap ''failed to marshal system message'' err)
           | Inr systemBytes \<Rightarrow>
               Inr (if \<not> isValidUTF8Bytes systemBytes then cleanInvalidUTF8Bytes systemBytes
                    else systemBytes)))"

text \<open>
  \<^verbatim>\<open>convertClaudeContentToResponses\<close>: in an array of objects the type tags \<^verbatim>\<open>text\<close> and
  \<^verbatim>\<open>image\<close> are renamed; at the first element that is no object the content is returned
  as it came (\<open>None\<close> in the loop below).  \<open>newContentArray\<close> starts as a \<^verbatim>\<open>nil\<close> slice.
\<close>

fun setKey :: "string \<Rightarrow> any \<Rightarrow> (string \<times> any) list \<Rightarrow> (string \<times> any) list" where
  "setKey k v [] = [(k, v)]"
| "setKey k v (p # ps) = (if fst p = k then (k, v) # ps else p # setKey k v ps)"

definition convertTypeTag :: "(string \<times> any) list \<Rightarrow> (string \<times> any) list" where
  "convertTypeTag newItem =
     (case map_of newItem ''type'' of
        Some (AnyString typeVal) \<Rightarrow>
          if typeVal = ''text'' then setKey ''type'' (AnyString ''input_text'') newItem
          else if typeVal = ''image'' then setKey ''type'' (AnyString ''input_image'') newItem
          else newItem
      | _ \<Rightarrow> newItem)"

fun convertContentLoop :: "any list \<Rightarrow> (string \<times> any) list list \<Rightarrow> (string \<times> any) list list option" where
  "convertContentLoop [] newContentArray = Some newContentArray"
| "convertContentLoop (item # rest) newContentArray =
     (case item of
        AnyMap itemMap \<Rightarrow> convertContentLoop rest (newContentArray @ [convertTypeTag itemMap])
      | _ \<Rightarrow> None)"

definition convertClaudeContentToResponses :: "any \<Rightarrow> go_error + any" where
  "convertClaudeContentToResponses content =
     (case content of
        AnyList contentArray \<Rightarrow>
          (case convertContentLoop contentArray [] of
             None \<Rightarrow> Inr content
           | Some newContentArray \<Rightarrow>
               Inr (if newContentArray = [] then AnyNilSlice
                    else AnyList (map AnyMap newContentArray)))
      | _ \<Rightarrow> Inr content)"

text \<open>\<^verbatim>\<open>convertClaudeMessagesToInputs\<close> of package \<^verbatim>\<open>openai_responses\<close>.\<close>

fun convertClaudeMessagesToInputsLoop ::
  "marshal \<Rightarrow> ClaudeMessage list \<Rightarrow> Input list \<Rightarrow> go_error + Input list" where
  "convertClaudeMessagesToInputsLoop Marshal [] inputs = Inr inputs"
| "convertClaudeMessagesToInputsLoop Marshal (message # rest) inputs =
     (let input = \<lparr>in_Type = ''message'', in_Role = cmsg_Role message, in_Content = None\<rparr> in
      (case cmsg_Content message of
         AnyNil \<Rightarrow> convertClaudeMessagesToInputsLoop Marshal rest (inputs @ [input])
       | AnyString str \<Rightarrow>
           let str' = (if \<not> isValidUTF8String str then cleanInvalidUTF8Chars str else str) in
           (case Marshal (VAny (AnyString str')) of
              Inl err \<Rightarrow> Inl (Wrap ''failed to marshal string content'' err)
            | Inr contentBytes \<Rightarrow>
                convertClaudeMessagesToInputsLoop Marshal rest
                  (inputs @ [input\<lparr>in_Content := Some contentBytes\<rparr>]))
       | content \<Rightarrow>
           (case convertClaudeContentToResponses content of
              Inl err \<Rightarrow> Inl (Wrap ''failed to convert claude content to responses format'' err)
            | Inr convertedContent \<Rightarrow>
                (case Marshal (VAny convertedContent) of
                   Inl err \<Rightarrow> Inl (Wrap ''failed to marshal converted content'' err)
                 | Inr contentBytes \<Rightarrow>
                     if \<not> isValidUTF8Bytes contentBytes
                     then Inl (Error ''generated JSON contains invalid UTF-8 characters'')
                     else convertClaudeMessagesToInputsLoop Marshal rest
                            (inputs @ [input\<lparr>in_Content := Some contentBytes\<rparr>])))))"

definition convertClaudeMessagesToInputs ::
  "marshal \<Rightarrow> ClaudeMessage list \<Rightarrow> go_error + Input list" where
  "convertClaudeMessagesToInputs Marshal messages =
     convertClaudeMessagesToInputsLoop Marshal messages []"

text \<open>\<^verbatim>\<open>ClaudeMessagesToResponsesRequest\<close> of package \<^verbatim>\<open>openai_responses\<close>.\<close>

definition ClaudeMessagesToResponsesRequest ::
  "marshal \<Rightarrow> ClaudeRequest option \<Rightarrow> RelayInfo \<Rightarrow> go_error + OpenAIResponsesRequest" where
  "ClaudeMessagesToResponsesRequest Marshal claudeRequest info =
     (case claudeRequest of
        None \<Rightarrow> Inl (Error ''claude request is nil'')
      | Some request \<Rightarrow>
          if creq_Model request = [] then Inl (Error ''model is required'')
          else
            let req0 = zero_OpenAIResponsesRequest\<lparr>rq_Model := info_UpstreamModelName info,
                         rq_Stream := creq_Stream request, rq_TopP := creq_TopP request\<rparr>;
                req1 = (case creq_Temperature request of
                          None \<Rightarrow> req0
                        | Some t \<Rightarrow> req0\<lparr>rq_Temperature := t\<rparr>);
                req2 = (if 0 < creq_MaxTokens request
                        then req1\<lparr>rq_MaxOutputTokens := creq_MaxTokens request\<rparr>
                        else if 0 < creq_MaxTokensToSample request
                        then req1\<lparr>rq_MaxOutputTokens := creq_MaxTokensToSample request\<rparr>
                        else req1)
            in
            (case (if creq_System request \<noteq> AnyNil then
                     (case extractClaudeSystemMessage Marshal (creq_System request) of
                        Inl err \<Rightarrow> Inl (Wrap ''failed to extract system message'' err)
                      | Inr instructions \<Rightarrow>
                          if instructions \<noteq> [] then
                            (case Marshal (VAny (AnyString instructions)) of
                               Inl err \<Rightarrow> Inl (Wrap ''failed to marshal instructions'' err)
                             | Inr instructionsBytes \<Rightarrow>
                                 Inr (req2\<lparr>rq_Instructions := Some instructionsBytes\<rparr>))
                          else Inr req2)
                   else Inr req2) of
               Inl err \<Rightarrow> Inl err
             | Inr req3 \<Rightarrow>
                 (case convertClaudeMessagesToInputs Marshal (creq_Messages request) of
                    Inl err \<Rightarrow> Inl (Wrap ''failed to convert claude messages to inputs'' err)
                  | Inr inputs \<Rightarrow>
                      (case setInput Marshal inputs req3 of
                         Inl err \<Rightarrow> Inl err
                       | Inr req4 \<Rightarrow>
                           (case (if creq_Tools request \<noteq> AnyNil then
                                    (case Marshal (VAny (creq_Tools request)) of
                                       Inl err \<Rightarrow> Inl (Wrap ''failed to marshal tools'' err)
                                     | Inr toolsData \<Rightarrow> Inr (req4\<lparr>rq_Tools := Some toolsData\<rparr>))
                                  else Inr req4) of
                              Inl err \<Rightarrow> Inl err
                            | Inr req5 \<Rightarrow>
                                (case (if creq_ToolChoice request \<noteq> AnyNil then
                                         (case Marshal (VAny (creq_ToolChoice request)) of
                                            Inl err \<Rightarrow> Inl (Wrap ''failed to marshal tool_choice'' err)
                                          | Inr toolChoiceData \<Rightarrow>
                                              Inr (req5\<lparr>rq_ToolChoice := Some toolChoiceData\<rparr>))
                                       else Inr req5) of
                                   Inl err \<Rightarrow> Inl err
                                 | Inr req6 \<Rightarrow>
                                     Inr (case creq_Metadata request of
                                            None \<Rightarrow> req6
                                          | Some m \<Rightarrow> req6\<lparr>rq_Metadata := Some m\<rparr>)))))))"

subsection \<open>The smart routers\<close>

text \<open>
  The key-value store of the request's \<^verbatim>\<open>gin.Context\<close>: \<^verbatim>\<open>c.Set(k, v)\<close> is \<open>keys(k \<mapsto> v)\<close>.
\<close>

datatype ctx_value =
    CtxBool bool
  | CtxOpenAIRequest GeneralOpenAIRequest
  | CtxClaudeRequest ClaudeRequest

type_synonym gin_keys = "string \<Rightarrow> ctx_value option"

text \<open>
  What a router returns as the converted request (\<^verbatim>\<open>any\<close> in Go): the translated
  Responses request, the result of one of the two native converters of package \<^verbatim>\<open>claude\<close>
  (\<^verbatim>\<open>RequestOpenAI2ClaudeComplete\<close>, \<^verbatim>\<open>RequestOpenAI2ClaudeMessage\<close>: parameters, their
  results of types \<open>'c\<close> and \<open>'m\<close>), or the request as it came.
\<close>

datatype ('c, 'm) converted =
    ResponsesRequest OpenAIResponsesRequest
  | ClaudeComplete 'c
  | ClaudeMessages 'm
  | Unconverted GeneralOpenAIRequest

text \<open>The adaptor of package \<^verbatim>\<open>claude\<close> (adaptor.go).\<close>

record Adaptor =
  RequestMode :: go_int

definition RequestModeCompletion :: go_int where
  "RequestModeCompletion = 1"

definition RequestModeMessage :: go_int where
  "RequestModeMessage = 2"

definition shouldRouteToResponses :: "string \<Rightarrow> bool" where
  "shouldRouteToResponses modelName \<longleftrightarrow>
     modelName \<in> set [''claude-3.5-sonnet'', ''claude-3-opus'', ''claude-3-haiku'']"

text \<open>
  The native conversion that \<^verbatim>\<open>ConvertOpenAIRequest\<close> of package \<^verbatim>\<open>claude\<close> ends with, on
  the path that is not routed and on the fallback path alike.
\<close>

definition nativeClaudeRequest ::
  "(GeneralOpenAIRequest \<Rightarrow> 'c) \<Rightarrow> (gin_keys \<Rightarrow> GeneralOpenAIRequest \<Rightarrow> go_error + 'm)
   \<Rightarrow> Adaptor \<Rightarrow> gin_keys \<Rightarrow> GeneralOpenAIRequest \<Rightarrow> go_error + ('c, 'm) converted" where
  "nativeClaudeRequest RequestOpenAI2ClaudeComplete RequestOpenAI2ClaudeMessage a keys request =
     (if RequestMode a = RequestModeCompletion
      then Inr (ClaudeComplete (RequestOpenAI2ClaudeComplete request))
      else (case RequestOpenAI2ClaudeMessage keys request of
              Inl err \<Rightarrow> Inl err
            | Inr m \<Rightarrow> Inr (ClaudeMessages m)))"

text \<open>
  \<^verbatim>\<open>ConvertOpenAIRequest\<close> of package \<^verbatim>\<open>claude\<close> (adaptor.go, line 116): the converted
  request or the error, the context's keys and the relay info afterwards.
\<close>

definition claude_ConvertOpenAIRequest ::
  "marshal \<Rightarrow> (GeneralOpenAIRequest \<Rightarrow> 'c) \<Rightarrow> (gin_keys \<Rightarrow> GeneralOpenAIRequest \<Rightarrow> go_error + 'm)
   \<Rightarrow> Adaptor \<Rightarrow> gin_keys \<Rightarrow> RelayInfo \<Rightarrow> GeneralOpenAIRequest option
   \<Rightarrow> (go_error + ('c, 'm) converted) \<times> gin_keys \<times> RelayInfo" where
  "claude_ConvertOpenAIRequest Marshal RequestOpenAI2ClaudeComplete RequestOpenAI2ClaudeMessage
       a keys info request =
     (case request of
        None \<Rightarrow> (Inl (Error ''request is nil''), keys, info)
      | Some req \<Rightarrow>
          if shouldRouteToResponses (info_OriginModelName info) then
            let keys' = keys(''converted_from_claude'' \<mapsto> CtxBool True,
                             ''original_claude_request'' \<mapsto> CtxOpenAIRequest req) in
            (case claude_ClaudeMessagesToResponsesRequest Marshal request info of
               Inl err \<Rightarrow>
                 (nativeClaudeRequest RequestOpenAI2ClaudeComplete RequestOpenAI2ClaudeMessage
                    a keys' req, keys', info)
             | Inr responsesReq \<Rightarrow>
                 (Inr (ResponsesRequest responsesReq), keys',
                  info\<lparr>info_RelayMode := RelayModeResponses\<rparr>))
          else
            (nativeClaudeRequest RequestOpenAI2ClaudeComplete RequestOpenAI2ClaudeMessage
               a keys req, keys, info))"

text \<open>
  The adaptor of package \<^verbatim>\<open>openai_responses\<close>.  The message of its last error, the bytes
  of the source's text.
\<close>

definition unsupportedModeMessage :: string where
  "unsupportedModeMessage =
      ''OpenAI Responses ''
      @ [CHR 0xE6, CHR 0xB8, CHR 0xA0, CHR 0xE9, CHR 0x81, CHR 0x93, CHR 0xE4, CHR 0xBB, CHR 0x85, CHR 0xE6, CHR 0x94, CHR 0xAF, CHR 0xE6, CHR 0x8C, CHR 0x81]
      @ '' Chat Completions ''
      @ [CHR 0xE5, CHR 0x92, CHR 0x8C]
      @ '' Responses API ''
      @ [CHR 0xE8, CHR 0xAF, CHR 0xB7, CHR 0xE6, CHR 0xB1, CHR 0x82]"

text \<open>\<^verbatim>\<open>ConvertClaudeRequest\<close> of package \<^verbatim>\<open>openai_responses\<close>.\<close>

definition ConvertClaudeRequest ::
  "marshal \<Rightarrow> gin_keys \<Rightarrow> RelayInfo \<Rightarrow> ClaudeRequest option
   \<Rightarrow> (go_error + OpenAIResponsesRequest) \<times> gin_keys \<times> RelayInfo" where
  "ConvertClaudeRequest Marshal keys info request =
     (case request of
        None \<Rightarrow> (Inl (Error ''claude request is nil''), keys, info)
      | Some req \<Rightarrow>
          if creq_Model req = [] then (Inl (Error ''model is required''), keys, info)
          else
            let keys' = keys(''converted_from_claude'' \<mapsto> CtxBool True,
                             ''original_claude_request'' \<mapsto> CtxClaudeRequest req) in
            (case ClaudeMessagesToResponsesRequest Marshal request info of
               Inl err \<Rightarrow>
                 (Inl (Wrap ''failed to convert claude messages request'' err), keys', info)
             | Inr responsesReq \<Rightarrow>
                 (Inr responsesReq, keys', info\<lparr>info_RelayMode := RelayModeResponses\<rparr>)))"

text \<open>\<^verbatim>\<open>ConvertOpenAIRequest\<close> of package \<^verbatim>\<open>openai_responses\<close>.\<close>

definition ConvertOpenAIRequest ::
  "marshal \<Rightarrow> (string \<Rightarrow> bool) \<Rightarrow> gin_keys \<Rightarrow> RelayInfo \<Rightarrow> GeneralOpenAIRequest option
   \<Rightarrow> (go_error + (unit, unit) converted) \<times> gin_keys \<times> RelayInfo" where
  "ConvertOpenAIRequest Marshal ValidJSON keys info request =
     (case request of
        None \<Rightarrow> (Inl (Error ''request is nil''), keys, info)
      | Some req \<Rightarrow>
          if info_RelayMode info = RelayModeChatCompletions then
            let keys' = keys(''converted_from_chat'' \<mapsto> CtxBool True,
                             ''original_chat_request'' \<mapsto> CtxOpenAIRequest req) in
            (case ChatCompletionsToResponsesRequest Marshal ValidJSON request info of
               Inl err \<Rightarrow>
                 (Inl (Wrap ''failed to convert chat completions request'' err), keys', info)
             | Inr responsesReq \<Rightarrow>
                 (Inr (ResponsesRequest responsesReq), keys',
                  info\<lparr>info_RelayMode := RelayModeResponses\<rparr>))
          else if info_RelayMode info = RelayModeResponses then
            (Inr (Unconverted req), keys, info)
          else (Inl (Error unsupportedModeMessage), keys, info))"

subsection \<open>Reference definitions and example inputs\<close>

text \<open>
  An output item that the assemblers read: a message of the assistant.
\<close>

definition isAssistantMessage :: "ResponsesOutput \<Rightarrow> bool" where
  "isAssistantMessage item \<longleftrightarrow> ro_Type item = ''message'' \<and> ro_Role item = ''assistant''"

text \<open>
  The text of the blocks of one type in the assistant's messages, in order.
\<close>

definition textOfType :: "string \<Rightarrow> ResponsesOutput list \<Rightarrow> string" where
  "textOfType ty output =
     concat (map roc_Text (filter (\<lambda>b. roc_Type b = ty)
       (concat (map ro_Content (filter isAssistantMessage output)))))"

text \<open>
  The spec's words for the assembled content: a textual block is one of type
  \<^verbatim>\<open>output_text\<close> or \<^verbatim>\<open>text\<close>, and the content is the text of all textual blocks of the
  assistant's messages, in order.
\<close>

definition spec_isTextual :: "ResponsesOutputContent \<Rightarrow> bool" where
  "spec_isTextual b \<longleftrightarrow> roc_Type b = ''output_text'' \<or> roc_Type b = ''text''"

definition spec_assistantText :: "ResponsesOutput list \<Rightarrow> string" where
  "spec_assistantText output =
     concat (map roc_Text (filter spec_isTextual
       (concat (map ro_Content (filter isAssistantMessage output)))))"

text \<open>
  An output with blocks of three types in an assistant message, a user message, an item
  that is no message, and a second assistant message.
\<close>

definition exampleOutput :: "ResponsesOutput list" where
  "exampleOutput =
     [\<lparr>ro_Type = ''message'', ro_Role = ''assistant'',
       ro_Content = [\<lparr>roc_Type = ''output_text'', roc_Text = ''a''\<rparr>,
                     \<lparr>roc_Type = ''text'', roc_Text = ''b''\<rparr>,
                     \<lparr>roc_Type = ''refusal'', roc_Text = ''c''\<rparr>]\<rparr>,
      \<lparr>ro_Type = ''message'', ro_Role = ''user'',
       ro_Content = [\<lparr>roc_Type = ''output_text'', roc_Text = ''d''\<rparr>]\<rparr>,
      \<lparr>ro_Type = ''reasoning'', ro_Role = ''assistant'',
       ro_Content = [\<lparr>roc_Type = ''output_text'', roc_Text = ''e''\<rparr>]\<rparr>,
      \<lparr>ro_Type = ''message'', ro_Role = ''assistant'',
       ro_Content = [\<lparr>roc_Type = ''output_text'', roc_Text = ''f''\<rparr>]\<rparr>]"

text \<open>A relay info whose request brought four prompt tokens.\<close>

definition exampleInfo :: RelayInfo where
  "exampleInfo = \<lparr>info_UpstreamModelName = ''gpt-5'', info_OriginModelName = ''gpt-5'',
     info_RelayMode = RelayModeChatCompletions, info_PromptTokens = 4, info_ResponseBody = [],
     info_BuiltInTools = None\<rparr>"


text \<open>
  The spec's words for valid text.  \<open>spec_utf8 rs\<close> is the text whose code points are
  \<open>rs\<close>.  A text is well encoded when it is the text of valid code points, and valid when
  moreover none of them is a control character other than CR, LF and TAB.
\<close>

definition spec_utf8 :: "rune list \<Rightarrow> string" where
  "spec_utf8 rs = concat (map EncodeRune rs)"

definition spec_wellEncoded :: "string \<Rightarrow> bool" where
  "spec_wellEncoded s \<longleftrightarrow> (\<exists>rs. list_all ValidRune rs \<and> s = spec_utf8 rs)"

definition spec_isValidText :: "string \<Rightarrow> bool" where
  "spec_isValidText s \<longleftrightarrow>
     (\<exists>rs. list_all ValidRune rs \<and> s = spec_utf8 rs
           \<and> list_all (\<lambda>r. IsControl r \<longrightarrow> r = 0x0D \<or> r = 0x0A \<or> r = 0x09) rs)"

section \<open>Properties\<close>

subsection \<open>UTF-8 decoding and encoding\<close>

text \<open>
  The value of a byte in a known range, without the remainder.
\<close>

lemma mod_shift: "k * m \<le> (b::nat) \<Longrightarrow> b < k * m + m \<Longrightarrow> b mod m = b - k * m"
proof -
  assume a: "k * m \<le> b" "b < k * m + m"
  then have "b = (b - k * m) + k * m" by simp
  then have "b mod m = ((b - k * m) + k * m) mod m" by simp
  also have "\<dots> = (b - k * m) mod m" by simp
  also have "\<dots> = b - k * m" using a by simp
  finally show ?thesis .
qed

lemma cont_mod: "128 \<le> (b::nat) \<Longrightarrow> b \<le> 191 \<Longrightarrow> b mod 64 = b - 128"
  using mod_shift [of 2 64 b] by simp

lemma lead2_mod: "194 \<le> (b::nat) \<Longrightarrow> b < 224 \<Longrightarrow> b mod 32 = b - 192"
  using mod_shift [of 6 32 b] by simp

lemma lead3_mod: "224 \<le> (b::nat) \<Longrightarrow> b < 240 \<Longrightarrow> b mod 16 = b - 224"
  using mod_shift [of 14 16 b] by simp

lemma lead4_mod: "240 \<le> (b::nat) \<Longrightarrow> b \<le> 244 \<Longrightarrow> b mod 8 = b - 240"
  using mod_shift [of 30 8 b] by simp


text \<open>The decoder, one equation per outcome.\<close>

lemma decode_ascii: "(of_char c0 :: nat) < 128 \<Longrightarrow> DecodeRuneInString (c0 # cs) = (of_char c0, 1)"
  by (simp add: Let_def)

lemma decode_bad_lead:
  "128 \<le> (of_char c0 :: nat) \<Longrightarrow> (of_char c0 :: nat) < 194 \<or> 244 < (of_char c0 :: nat)
   \<Longrightarrow> DecodeRuneInString (c0 # cs) = (RuneError, 1)"
  by (auto simp add: Let_def)

lemma decode_short1:
  "194 \<le> (of_char c0 :: nat) \<Longrightarrow> DecodeRuneInString [c0] = (RuneError, 1)"
  by (simp add: Let_def)

lemma decode_bad_b1:
  "194 \<le> (of_char c0 :: nat) \<Longrightarrow> (of_char c0 :: nat) \<le> 244
   \<Longrightarrow> (of_char c1 :: nat) < accept_lo (of_char c0) \<or> accept_hi (of_char c0) < (of_char c1 :: nat)
   \<Longrightarrow> DecodeRuneInString (c0 # c1 # cs) = (RuneError, 1)"
  by (simp add: Let_def)

lemma accept_cont:
  "accept_lo b0 \<le> b1 \<Longrightarrow> b1 \<le> accept_hi b0 \<Longrightarrow> 128 \<le> b1 \<and> b1 \<le> 191"
  by (simp add: accept_lo_def accept_hi_def split: if_splits)

lemma decode_two:
  assumes "194 \<le> (of_char c0 :: nat)" "(of_char c0 :: nat) < 224"
    and "128 \<le> (of_char c1 :: nat)" "(of_char c1 :: nat) \<le> 191"
  shows "DecodeRuneInString (c0 # c1 # cs)
         = (((of_char c0 :: nat) - 192) * 64 + ((of_char c1 :: nat) - 128), 2)"
proof -
  have "accept_lo (of_char c0) = 128" "accept_hi (of_char c0) = 191"
    using assms by (simp_all add: accept_lo_def accept_hi_def)
  then show ?thesis
    using assms by (simp add: Let_def cont_mod lead2_mod)
qed

lemma decode_short2:
  assumes "224 \<le> (of_char c0 :: nat)" "(of_char c0 :: nat) \<le> 244"
    and "accept_lo (of_char c0) \<le> (of_char c1 :: nat)" "(of_char c1 :: nat) \<le> accept_hi (of_char c0)"
  shows "DecodeRuneInString [c0, c1] = (RuneError, 1)"
  using assms by (simp add: Let_def)

lemma decode_bad_b2:
  assumes "224 \<le> (of_char c0 :: nat)" "(of_char c0 :: nat) \<le> 244"
    and "accept_lo (of_char c0) \<le> (of_char c1 :: nat)" "(of_char c1 :: nat) \<le> accept_hi (of_char c0)"
    and "\<not> is_cont c2"
  shows "DecodeRuneInString (c0 # c1 # c2 # cs) = (RuneError, 1)"
  using assms by (simp add: Let_def)

lemma decode_three:
  assumes "224 \<le> (of_char c0 :: nat)" "(of_char c0 :: nat) < 240"
    and "accept_lo (of_char c0) \<le> (of_char c1 :: nat)" "(of_char c1 :: nat) \<le> accept_hi (of_char c0)"
    and "is_cont c2"
  shows "DecodeRuneInString (c0 # c1 # c2 # cs)
         = (((of_char c0 :: nat) - 224) * 4096 + ((of_char c1 :: nat) - 128) * 64
            + ((of_char c2 :: nat) - 128), 3)"
proof -
  have b1: "128 \<le> (of_char c1 :: nat)" "(of_char c1 :: nat) \<le> 191"
    using accept_cont [OF assms(3,4)] by simp_all
  have b2: "128 \<le> (of_char c2 :: nat)" "(of_char c2 :: nat) \<le> 191"
    using assms(5) by (simp_all add: is_cont_def)
  have m: "(of_char c0 :: nat) mod 16 = of_char c0 - 224" "(of_char c1 :: nat) mod 64 = of_char c1 - 128"
     "(of_char c2 :: nat) mod 64 = of_char c2 - 128"
    using assms(1,2) b1 b2 by (simp_all add: cont_mod lead3_mod)
  show ?thesis
    using assms by (simp add: Let_def m)
qed

lemma decode_short3:
  assumes "240 \<le> (of_char c0 :: nat)" "(of_char c0 :: nat) \<le> 244"
    and "accept_lo (of_char c0) \<le> (of_char c1 :: nat)" "(of_char c1 :: nat) \<le> accept_hi (of_char c0)"
    and "is_cont c2"
  shows "DecodeRuneInString [c0, c1, c2] = (RuneError, 1)"
  using assms by (simp add: Let_def)

lemma decode_bad_b3:
  assumes "240 \<le> (of_char c0 :: nat)" "(of_char c0 :: nat) \<le> 244"
    and "accept_lo (of_char c0) \<le> (of_char c1 :: nat)" "(of_char c1 :: nat) \<le> accept_hi (of_char c0)"
    and "is_cont c2" "\<not> is_cont c3"
  shows "DecodeRuneInString (c0 # c1 # c2 # c3 # cs) = (RuneError, 1)"
  using assms by (simp add: Let_def)

lemma decode_four:
  assumes "240 \<le> (of_char c0 :: nat)" "(of_char c0 :: nat) \<le> 244"
    and "accept_lo (of_char c0) \<le> (of_char c1 :: nat)" "(of_char c1 :: nat) \<le> accept_hi (of_char c0)"
    and "is_cont c2" "is_cont c3"
  shows "DecodeRuneInString (c0 # c1 # c2 # c3 # cs)
         = (((of_char c0 :: nat) - 240) * 262144 + ((of_char c1 :: nat) - 128) * 4096
            + ((of_char c2 :: nat) - 128) * 64 + ((of_char c3 :: nat) - 128), 4)"
proof -
  have b1: "128 \<le> (of_char c1 :: nat)" "(of_char c1 :: nat) \<le> 191"
    using accept_cont [OF assms(3,4)] by simp_all
  have b2: "128 \<le> (of_char c2 :: nat)" "(of_char c2 :: nat) \<le> 191"
    using assms(5) by (simp_all add: is_cont_def)
  have b3: "128 \<le> (of_char c3 :: nat)" "(of_char c3 :: nat) \<le> 191"
    using assms(6) by (simp_all add: is_cont_def)
  have m: "(of_char c0 :: nat) mod 8 = of_char c0 - 240" "(of_char c1 :: nat) mod 64 = of_char c1 - 128"
     "(of_char c2 :: nat) mod 64 = of_char c2 - 128" "(of_char c3 :: nat) mod 64 = of_char c3 - 128"
    using assms(1,2) b1 b2 b3 by (simp_all add: cont_mod lead4_mod)
  show ?thesis
    using assms by (simp add: Let_def m)
qed

declare DecodeRuneInString.simps(2) [simp del]

text \<open>Every outcome of the decoder is one of six.\<close>

lemma decode_cases:
  assumes "DecodeRuneInString s = (r, w)"
  obtains
    (empty) "s = []" "r = RuneError" "w = 0"
  | (invalid) c cs where "s = c # cs" "r = RuneError" "w = 1"
  | (one) c cs where "s = c # cs" "r = of_char c" "r < 128" "w = 1"
  | (two) c0 c1 cs where "s = c0 # c1 # cs" "w = 2"
      "194 \<le> (of_char c0 :: nat)" "(of_char c0 :: nat) < 224"
      "128 \<le> (of_char c1 :: nat)" "(of_char c1 :: nat) \<le> 191"
      "r = ((of_char c0 :: nat) - 192) * 64 + ((of_char c1 :: nat) - 128)"
  | (three) c0 c1 c2 cs where "s = c0 # c1 # c2 # cs" "w = 3"
      "224 \<le> (of_char c0 :: nat)" "(of_char c0 :: nat) < 240"
      "accept_lo (of_char c0) \<le> (of_char c1 :: nat)" "(of_char c1 :: nat) \<le> accept_hi (of_char c0)"
      "128 \<le> (of_char c2 :: nat)" "(of_char c2 :: nat) \<le> 191"
      "r = ((of_char c0 :: nat) - 224) * 4096 + ((of_char c1 :: nat) - 128) * 64 + ((of_char c2 :: nat) - 128)"
  | (four) c0 c1 c2 c3 cs where "s = c0 # c1 # c2 # c3 # cs" "w = 4"
      "240 \<le> (of_char c0 :: nat)" "(of_char c0 :: nat) \<le> 244"
      "accept_lo (of_char c0) \<le> (of_char c1 :: nat)" "(of_char c1 :: nat) \<le> accept_hi (of_char c0)"
      "128 \<le> (of_char c2 :: nat)" "(of_char c2 :: nat) \<le> 191"
      "128 \<le> (of_char c3 :: nat)" "(of_char c3 :: nat) \<le> 191"
      "r = ((of_char c0 :: nat) - 240) * 262144 + ((of_char c1 :: nat) - 128) * 4096
           + ((of_char c2 :: nat) - 128) * 64 + ((of_char c3 :: nat) - 128)"
proof (cases s)
  case Nil
  with assms have "r = RuneError" "w = 0" by simp_all
  with Nil show ?thesis by (rule empty)
next
  case (Cons c0 cs)
  note s = this
  let ?b0 = "of_char c0 :: nat"
  show ?thesis
  proof (cases "?b0 < 128")
    case True
    from assms have "r = ?b0" "w = 1" unfolding s decode_ascii [OF True] by simp_all
    with s True show ?thesis by (intro one) simp_all
  next
    case ge128: False
    show ?thesis
    proof (cases "?b0 < 194 \<or> 244 < ?b0")
      case True
      from ge128 have "128 \<le> ?b0" by simp
      from assms have "r = RuneError" "w = 1"
        unfolding s decode_bad_lead [OF \<open>128 \<le> ?b0\<close> True] by simp_all
      with s show ?thesis by (intro invalid) simp_all
    next
      case lead: False
      then have b0: "194 \<le> ?b0" "?b0 \<le> 244" by simp_all
      show ?thesis
      proof (cases cs)
        case Nil
        from assms have "r = RuneError" "w = 1"
          unfolding s Nil decode_short1 [OF b0(1)] by simp_all
        with s show ?thesis by (intro invalid) simp_all
      next
        case (Cons c1 cs1)
        note cs = this
        let ?b1 = "of_char c1 :: nat"
        show ?thesis
        proof (cases "?b1 < accept_lo ?b0 \<or> accept_hi ?b0 < ?b1")
          case True
          from assms have "r = RuneError" "w = 1"
            unfolding s cs decode_bad_b1 [OF b0 True] by simp_all
          with s show ?thesis by (intro invalid) simp_all
        next
          case False
          then have acc: "accept_lo ?b0 \<le> ?b1" "?b1 \<le> accept_hi ?b0" by simp_all
          have b1: "128 \<le> ?b1" "?b1 \<le> 191"
            using accept_cont [OF acc] by simp_all
          show ?thesis
          proof (cases "?b0 < 224")
            case True
            from assms have rw: "r = (?b0 - 192) * 64 + (?b1 - 128)" "w = 2"
              unfolding s cs decode_two [OF b0(1) True b1] by (auto simp only: prod.inject)
            from s cs have s': "s = c0 # c1 # cs1" by simp
            show ?thesis by (rule two [OF s' rw(2) b0(1) True b1 rw(1)])
          next
            case False
            then have ge224: "224 \<le> ?b0" by simp
            show ?thesis
            proof (cases cs1)
              case Nil
              from assms have "r = RuneError" "w = 1"
                unfolding s cs Nil decode_short2 [OF ge224 b0(2) acc] by simp_all
              with s show ?thesis by (intro invalid) simp_all
            next
              case (Cons c2 cs2)
              note cs1 = this
              let ?b2 = "of_char c2 :: nat"
              show ?thesis
              proof (cases "is_cont c2")
                case False
                from assms have "r = RuneError" "w = 1"
                  unfolding s cs cs1 decode_bad_b2 [OF ge224 b0(2) acc False] by simp_all
                with s show ?thesis by (intro invalid) simp_all
              next
                case c2: True
                then have b2: "128 \<le> ?b2" "?b2 \<le> 191" by (simp_all add: is_cont_def)
                show ?thesis
                proof (cases "?b0 < 240")
                  case True
                  from assms
                  have rw: "r = (?b0 - 224) * 4096 + (?b1 - 128) * 64 + (?b2 - 128)" "w = 3"
                    unfolding s cs cs1 decode_three [OF ge224 True acc c2]
                    by (auto simp only: prod.inject)
                  from s cs cs1 have s': "s = c0 # c1 # c2 # cs2" by simp
                  show ?thesis by (rule three [OF s' rw(2) ge224 True acc b2 rw(1)])
                next
                  case False
                  then have ge240: "240 \<le> ?b0" by simp
                  show ?thesis
                  proof (cases cs2)
                    case Nil
                    from assms have "r = RuneError" "w = 1"
                      unfolding s cs cs1 Nil decode_short3 [OF ge240 b0(2) acc c2] by simp_all
                    with s show ?thesis by (intro invalid) simp_all
                  next
                    case (Cons c3 cs3)
                    note cs2 = this
                    let ?b3 = "of_char c3 :: nat"
                    show ?thesis
                    proof (cases "is_cont c3")
                      case False
                      from assms have "r = RuneError" "w = 1"
                        unfolding s cs cs1 cs2 decode_bad_b3 [OF ge240 b0(2) acc c2 False]
                        by simp_all
                      with s show ?thesis by (intro invalid) simp_all
                    next
                      case c3: True
                      then have b3: "128 \<le> ?b3" "?b3 \<le> 191" by (simp_all add: is_cont_def)
                      from assms
                      have rw: "r = (?b0 - 240) * 262144 + (?b1 - 128) * 4096
                           + (?b2 - 128) * 64 + (?b3 - 128)" "w = 4"
                        unfolding s cs cs1 cs2 decode_four [OF ge240 b0(2) acc c2 c3]
                        by (auto simp only: prod.inject)
                      from s cs cs1 cs2 have s': "s = c0 # c1 # c2 # c3 # cs3" by simp
                      show ?thesis
                        by (rule four [OF s' rw(2) ge240 b0(2) acc b2 b3 rw(1)])
                    qed
                  qed
                qed
              qed
            qed
          qed
        qed
      qed
    qed
  qed
qed


lemma decode_valid: "DecodeRuneInString s = (r, w) \<Longrightarrow> ValidRune r"
proof (erule decode_cases)
  fix c0 c1 c2 cs
  assume "224 \<le> (of_char c0 :: nat)" "(of_char c0 :: nat) < 240"
      "accept_lo (of_char c0) \<le> (of_char c1 :: nat)" "(of_char c1 :: nat) \<le> accept_hi (of_char c0)"
      "128 \<le> (of_char c2 :: nat)" "(of_char c2 :: nat) \<le> 191"
      "r = ((of_char c0 :: nat) - 224) * 4096 + ((of_char c1 :: nat) - 128) * 64 + ((of_char c2 :: nat) - 128)"
  then show "ValidRune r"
    unfolding ValidRune_def accept_lo_def accept_hi_def by (simp split: if_splits; arith)
next
  fix c0 c1 c2 c3 cs
  assume "240 \<le> (of_char c0 :: nat)" "(of_char c0 :: nat) \<le> 244"
      "accept_lo (of_char c0) \<le> (of_char c1 :: nat)" "(of_char c1 :: nat) \<le> accept_hi (of_char c0)"
      "128 \<le> (of_char c2 :: nat)" "(of_char c2 :: nat) \<le> 191"
      "128 \<le> (of_char c3 :: nat)" "(of_char c3 :: nat) \<le> 191"
      "r = ((of_char c0 :: nat) - 240) * 262144 + ((of_char c1 :: nat) - 128) * 4096
           + ((of_char c2 :: nat) - 128) * 64 + ((of_char c3 :: nat) - 128)"
  then show "ValidRune r"
    unfolding ValidRune_def accept_lo_def accept_hi_def by (simp split: if_splits; arith)
next
  fix c0 c1 cs
  assume "194 \<le> (of_char c0 :: nat)" "(of_char c0 :: nat) < 224"
      "128 \<le> (of_char c1 :: nat)" "(of_char c1 :: nat) \<le> 191"
      "r = ((of_char c0 :: nat) - 192) * 64 + ((of_char c1 :: nat) - 128)"
  then show "ValidRune r"
    unfolding ValidRune_def by arith
qed (simp_all add: ValidRune_def RuneError_def)

lemma decode_width: "DecodeRuneInString (c # cs) = (r, w) \<Longrightarrow> 1 \<le> w \<and> w \<le> Suc (length cs)"
  by (erule decode_cases) simp_all

text \<open>A code point is the sum of its 6-bit digits.\<close>

lemma of_char_char_of_small: "n < 256 \<Longrightarrow> (of_char (char_of (n::nat)) :: nat) = n"
  by simp

lemma split3: "(r::nat) = (r div 4096) * 4096 + ((r div 64) mod 64) * 64 + r mod 64"
proof -
  define q where "q = r div 64"
  define a where "a = q div 64"
  define b where "b = q mod 64"
  define c where "c = r mod 64"
  have a: "r div 4096 = a"
    using div_mult2_eq [of r 64 64] by (simp add: a_def q_def)
  have "q = a * 64 + b" by (simp add: a_def b_def)
  moreover have "r = q * 64 + c" by (simp add: q_def c_def)
  ultimately have "r = a * 4096 + b * 64 + c" by simp
  then show ?thesis
    unfolding a by (simp only: b_def c_def q_def)
qed

lemma split4:
  "(r::nat) = (r div 262144) * 262144 + ((r div 4096) mod 64) * 4096 + ((r div 64) mod 64) * 64 + r mod 64"
proof -
  define q where "q = r div 4096"
  define a where "a = q div 64"
  define b where "b = q mod 64"
  define lo where "lo = ((r div 64) mod 64) * 64 + r mod 64"
  have a: "r div 262144 = a"
    using div_mult2_eq [of r 4096 64] by (simp add: a_def q_def)
  have "q = a * 64 + b" by (simp add: a_def b_def)
  moreover have "r = q * 4096 + lo" using split3 [of r] by (simp add: q_def lo_def)
  ultimately have "r = a * 262144 + b * 4096 + lo" by simp
  then show ?thesis
    unfolding a by (simp only: b_def lo_def q_def add.assoc)
qed


text \<open>Decoding an encoded rune gives the rune back, whatever follows it.\<close>

lemma decode_encode1:
  assumes "r \<le> 0x7F"
  shows "DecodeRuneInString (EncodeRune r @ rest) = (r, length (EncodeRune r))"
proof -
  have e: "EncodeRune r = [char_of r]" using assms by (simp add: EncodeRune_def)
  have "(of_char (char_of r) :: nat) = r" using assms by simp
  then show ?thesis unfolding e using assms decode_ascii [of "char_of r" rest] by simp
qed

lemma decode_encode2:
  assumes "0x7F < r" "r \<le> 0x7FF"
  shows "DecodeRuneInString (EncodeRune r @ rest) = (r, length (EncodeRune r))"
proof -
  define a where "a = r div 64"
  define c where "c = r mod 64"
  have r: "r = a * 64 + c" and c: "c < 64" by (simp_all add: a_def c_def)
  have a: "2 \<le> a" "a \<le> 31" using assms r c by arith+
  have e: "EncodeRune r = [char_of (192 + a), char_of (128 + c)]"
    using assms by (simp add: EncodeRune_def a_def c_def)
  have b0: "(of_char (char_of (192 + a)) :: nat) = 192 + a" using a by simp
  have b1: "(of_char (char_of (128 + c)) :: nat) = 128 + c" using c by simp
  have "DecodeRuneInString (char_of (192 + a) # char_of (128 + c) # rest)
        = ((192 + a - 192) * 64 + (128 + c - 128), 2)"
    using decode_two [of "char_of (192 + a)" "char_of (128 + c)" rest] a c
    unfolding b0 b1 by simp
  then show ?thesis unfolding e using r by simp
qed

lemma decode_encode3:
  assumes "0x7FF < r" "r \<le> 0xFFFF" "ValidRune r"
  shows "DecodeRuneInString (EncodeRune r @ rest) = (r, length (EncodeRune r))"
proof -
  define a where "a = r div 4096"
  define b where "b = (r div 64) mod 64"
  define c where "c = r mod 64"
  have r: "r = a * 4096 + b * 64 + c"
    unfolding a_def b_def c_def by (rule split3)
  have bc: "b < 64" "c < 64" by (simp_all add: b_def c_def)
  have a: "a \<le> 15" using assms r bc by arith
  have lo: "a = 0 \<Longrightarrow> 32 \<le> b" using assms r bc by arith
  have hi: "a = 13 \<Longrightarrow> b \<le> 31" using assms r bc unfolding ValidRune_def by arith
  have e: "EncodeRune r = [char_of (224 + a), char_of (128 + b), char_of (128 + c)]"
    using assms by (auto simp add: EncodeRune_def a_def b_def c_def ValidRune_def)
  have b0: "(of_char (char_of (224 + a)) :: nat) = 224 + a" using a by simp
  have b1: "(of_char (char_of (128 + b)) :: nat) = 128 + b" using bc by simp
  have b2: "(of_char (char_of (128 + c)) :: nat) = 128 + c" using bc by simp
  have acc: "accept_lo (224 + a) \<le> 128 + b" "128 + b \<le> accept_hi (224 + a)"
    using a bc lo hi by (auto simp: accept_lo_def accept_hi_def)
  have "DecodeRuneInString (char_of (224 + a) # char_of (128 + b) # char_of (128 + c) # rest)
        = ((224 + a - 224) * 4096 + (128 + b - 128) * 64 + (128 + c - 128), 3)"
    using decode_three [of "char_of (224 + a)" "char_of (128 + b)" "char_of (128 + c)" rest]
      a bc acc
    unfolding b0 b1 b2 is_cont_def by simp
  then show ?thesis unfolding e using r by simp
qed

lemma decode_encode4:
  assumes "0xFFFF < r" "r \<le> 0x10FFFF"
  shows "DecodeRuneInString (EncodeRune r @ rest) = (r, length (EncodeRune r))"
proof -
  define a where "a = r div 262144"
  define b where "b = (r div 4096) mod 64"
  define c where "c = (r div 64) mod 64"
  define d where "d = r mod 64"
  have r: "r = a * 262144 + b * 4096 + c * 64 + d"
    unfolding a_def b_def c_def d_def by (rule split4)
  have bcd: "b < 64" "c < 64" "d < 64" by (simp_all add: b_def c_def d_def)
  have a: "a \<le> 4" using assms r bcd by arith
  have lo: "a = 0 \<Longrightarrow> 16 \<le> b" using assms r bcd by arith
  have hi: "a = 4 \<Longrightarrow> b \<le> 15" using assms r bcd by arith
  have e: "EncodeRune r = [char_of (240 + a), char_of (128 + b), char_of (128 + c), char_of (128 + d)]"
    using assms by (auto simp add: EncodeRune_def a_def b_def c_def d_def)
  have b0: "(of_char (char_of (240 + a)) :: nat) = 240 + a" using a by simp
  have b1: "(of_char (char_of (128 + b)) :: nat) = 128 + b" using bcd by simp
  have b2: "(of_char (char_of (128 + c)) :: nat) = 128 + c" using bcd by simp
  have b3: "(of_char (char_of (128 + d)) :: nat) = 128 + d" using bcd by simp
  have acc: "accept_lo (240 + a) \<le> 128 + b" "128 + b \<le> accept_hi (240 + a)"
    using a bcd lo hi by (auto simp: accept_lo_def accept_hi_def)
  have "DecodeRuneInString (char_of (240 + a) # char_of (128 + b) # char_of (128 + c)
          # char_of (128 + d) # rest)
        = ((240 + a - 240) * 262144 + (128 + b - 128) * 4096 + (128 + c - 128) * 64
           + (128 + d - 128), 4)"
    using decode_four [of "char_of (240 + a)" "char_of (128 + b)" "char_of (128 + c)"
        "char_of (128 + d)" rest] a bcd acc
    unfolding b0 b1 b2 b3 is_cont_def by simp
  then show ?thesis unfolding e using r by simp
qed

lemma decode_encode:
  assumes "ValidRune r"
  shows "DecodeRuneInString (EncodeRune r @ rest) = (r, length (EncodeRune r))"
proof -
  consider "r \<le> 0x7F" | "0x7F < r" "r \<le> 0x7FF" | "0x7FF < r" "r \<le> 0xFFFF"
    | "0xFFFF < r" "r \<le> 0x10FFFF"
    using assms unfolding ValidRune_def by arith
  then show ?thesis
    using assms by cases (simp_all add: decode_encode1 decode_encode2 decode_encode3 decode_encode4)
qed

subsection \<open>The range loop and the sanitizer\<close>

lemma range_crlftab: "range_runes crlftab = [13, 10, 9]"
  by (simp add: crlftab_def decode_ascii)

lemma ContainsRune_crlftab: "ContainsRune crlftab r \<longleftrightarrow> r = 13 \<or> r = 10 \<or> r = 9"
  by (auto simp add: ContainsRune_def range_crlftab)

lemma cleanLoop_eq: "cleanLoop rs acc = acc @ concat (map EncodeRune (filter keepRune rs))"
  by (induction rs arbitrary: acc) (simp_all add: keepRune_def)

lemma EncodeRune_nonempty: "EncodeRune r \<noteq> []"
  by (simp add: EncodeRune_def)

lemma range_encode:
  assumes "ValidRune r"
  shows "range_runes (EncodeRune r @ rest) = r # range_runes rest"
proof -
  obtain c cs where e: "EncodeRune r = c # cs"
    using EncodeRune_nonempty [of r] by (cases "EncodeRune r") auto
  have "DecodeRuneInString (c # cs @ rest) = (r, Suc (length cs))"
    using decode_encode [OF assms, of rest] unfolding e by simp
  then show ?thesis unfolding e by simp
qed

lemma range_runes_valid: "r \<in> set (range_runes s) \<Longrightarrow> ValidRune r"
proof (induction s arbitrary: r rule: range_runes.induct)
  case 1
  then show ?case by simp
next
  case (2 c cs)
  obtain r0 w where d: "DecodeRuneInString (c # cs) = (r0, w)"
    by (cases "DecodeRuneInString (c # cs)")
  from "2.prems" d have "r = r0 \<or> r \<in> set (range_runes (drop (w - 1) cs))" by simp
  then show ?case
  proof
    assume "r = r0"
    with d show ?thesis by (simp add: decode_valid)
  next
    assume "r \<in> set (range_runes (drop (w - 1) cs))"
    then show ?thesis by (rule "2.IH" [OF d [symmetric]])
  qed
qed

lemma range_concat_encode:
  "list_all ValidRune rs \<Longrightarrow> range_runes (concat (map EncodeRune rs)) = rs"
  by (induction rs) (simp_all add: range_encode)

lemma cleanInvalidUTF8Chars_eq:
  "cleanInvalidUTF8Chars s = concat (map EncodeRune (filter keepRune (range_runes s)))"
  by (simp add: cleanInvalidUTF8Chars_def cleanLoop_eq)

lemma range_clean: "range_runes (cleanInvalidUTF8Chars s) = filter keepRune (range_runes s)"
  unfolding cleanInvalidUTF8Chars_eq
  by (rule range_concat_encode) (simp add: list_all_iff keepRune_def)

subsection \<open>Encoding a decoded rune, and valid strings\<close>

text \<open>The 6-bit digits of a code point that is given by its digits.\<close>

lemma digits2:
  assumes "c < (64::nat)"
  shows "(a * 64 + c) div 64 = a" "(a * 64 + c) mod 64 = c"
  using assms by simp_all

lemma digits3:
  assumes "b < (64::nat)" "c < (64::nat)" "r = a * 4096 + b * 64 + c"
  shows "r div 4096 = a" and "(r div 64) mod 64 = b" and "r mod 64 = c"
proof -
  have lo: "b * 64 + c < 4096" using assms by arith
  have "r = a * 4096 + (b * 64 + c)" using assms(3) by simp
  then show "r div 4096 = a" using lo by simp
  have e: "r = (a * 64 + b) * 64 + c" using assms(3) by simp
  have "r div 64 = a * 64 + b" by (simp only: e digits2(1) [OF assms(2)])
  then show "(r div 64) mod 64 = b" using assms(1) by simp
  show "r mod 64 = c" by (simp only: e digits2(2) [OF assms(2)])
qed

lemma digits4:
  assumes "b < (64::nat)" "c < (64::nat)" "d < (64::nat)"
    and "r = a * 262144 + b * 4096 + c * 64 + d"
  shows "r div 262144 = a" and "(r div 4096) mod 64 = b" and "(r div 64) mod 64 = c"
    and "r mod 64 = d"
proof -
  have lo: "b * 4096 + c * 64 + d < 262144" using assms by arith
  have "r = a * 262144 + (b * 4096 + c * 64 + d)" using assms(4) by simp
  then show "r div 262144 = a" using lo by simp
  have e: "r = (a * 64 + b) * 4096 + c * 64 + d" using assms(4) by simp
  have "r div 4096 = a * 64 + b" by (rule digits3(1) [OF assms(2,3) e])
  then show "(r div 4096) mod 64 = b" using assms(1) by simp
  show "(r div 64) mod 64 = c" by (rule digits3(2) [OF assms(2,3) e])
  show "r mod 64 = d" by (rule digits3(3) [OF assms(2,3) e])
qed

lemma encode_decode:
  assumes "DecodeRuneInString (c # cs) = (r, w)" and "\<not> (r = RuneError \<and> w = 1)"
  shows "take w (c # cs) = EncodeRune r"
  using assms(1)
proof (cases rule: decode_cases)
  case empty
  then show ?thesis by simp
next
  case (invalid c' cs')
  with assms(2) show ?thesis by simp
next
  case (one c' cs')
  then show ?thesis by (simp add: EncodeRune_def)
next
  case (two c0 c1 cs')
  define k0 where "k0 = (of_char c0 :: nat) - 192"
  define k1 where "k1 = (of_char c1 :: nat) - 128"
  have b: "(of_char c0 :: nat) = 192 + k0" "(of_char c1 :: nat) = 128 + k1"
    using two by (simp_all add: k0_def k1_def)
  have k: "2 \<le> k0" "k0 < 32" "k1 < 64" using two by (simp_all add: k0_def k1_def)
  have r: "r = k0 * 64 + k1" using two by (simp add: k0_def k1_def)
  have rb: "0x7F < r" "r \<le> 0x7FF" using r k by arith+
  have d: "r div 64 = k0" "r mod 64 = k1" using digits2 [OF k(3), of k0] r by simp_all
  have "EncodeRune r = [char_of (192 + k0), char_of (128 + k1)]"
    using rb by (simp add: EncodeRune_def d)
  also have "\<dots> = [c0, c1]" by (simp only: b [symmetric] char_of_char)
  finally show ?thesis using two by simp
next
  case (three c0 c1 c2 cs')
  define k0 where "k0 = (of_char c0 :: nat) - 224"
  define k1 where "k1 = (of_char c1 :: nat) - 128"
  define k2 where "k2 = (of_char c2 :: nat) - 128"
  have c1: "128 \<le> (of_char c1 :: nat)" "(of_char c1 :: nat) \<le> 191"
    using accept_cont [OF three(5,6)] by simp_all
  have b: "(of_char c0 :: nat) = 224 + k0" "(of_char c1 :: nat) = 128 + k1"
      "(of_char c2 :: nat) = 128 + k2"
    using three c1 by (simp_all add: k0_def k1_def k2_def)
  have k: "k0 < 16" "k1 < 64" "k2 < 64" using three c1 by (simp_all add: k0_def k1_def k2_def)
  have lo: "k0 = 0 \<Longrightarrow> 32 \<le> k1"
    using three(5) b by (simp add: accept_lo_def split: if_splits)
  have r: "r = k0 * 4096 + k1 * 64 + k2" using three by (simp add: k0_def k1_def k2_def)
  have v: "ValidRune r" using assms(1) by (rule decode_valid)
  have rb: "0x7FF < r" "r \<le> 0xFFFF" using r k lo by arith+
  have ns: "\<not> (0xD800 \<le> r \<and> r \<le> 0xDFFF)" using v unfolding ValidRune_def by arith
  have d: "r div 4096 = k0" "(r div 64) mod 64 = k1" "r mod 64 = k2"
    using digits3 [OF k(2,3) r] by simp_all
  have "EncodeRune r = [char_of (224 + k0), char_of (128 + k1), char_of (128 + k2)]"
    using rb ns by (auto simp add: EncodeRune_def d)
  also have "\<dots> = [c0, c1, c2]" by (simp only: b [symmetric] char_of_char)
  finally show ?thesis using three by simp
next
  case (four c0 c1 c2 c3 cs')
  define k0 where "k0 = (of_char c0 :: nat) - 240"
  define k1 where "k1 = (of_char c1 :: nat) - 128"
  define k2 where "k2 = (of_char c2 :: nat) - 128"
  define k3 where "k3 = (of_char c3 :: nat) - 128"
  have c1: "128 \<le> (of_char c1 :: nat)" "(of_char c1 :: nat) \<le> 191"
    using accept_cont [OF four(5,6)] by simp_all
  have b: "(of_char c0 :: nat) = 240 + k0" "(of_char c1 :: nat) = 128 + k1"
      "(of_char c2 :: nat) = 128 + k2" "(of_char c3 :: nat) = 128 + k3"
    using four c1 by (simp_all add: k0_def k1_def k2_def k3_def)
  have k: "k0 \<le> 4" "k1 < 64" "k2 < 64" "k3 < 64"
    using four c1 by (simp_all add: k0_def k1_def k2_def k3_def)
  have lo: "k0 = 0 \<Longrightarrow> 16 \<le> k1"
    using four(5) b by (simp add: accept_lo_def split: if_splits)
  have r: "r = k0 * 262144 + k1 * 4096 + k2 * 64 + k3"
    using four by (simp add: k0_def k1_def k2_def k3_def)
  have v: "ValidRune r" using assms(1) by (rule decode_valid)
  have rb: "0xFFFF < r" using r k lo by arith
  have rv: "r \<le> 0x10FFFF" using v rb unfolding ValidRune_def by arith
  have d: "r div 262144 = k0" "(r div 4096) mod 64 = k1" "(r div 64) mod 64 = k2" "r mod 64 = k3"
    using digits4 [OF k(2,3,4) r] by simp_all
  have "EncodeRune r = [char_of (240 + k0), char_of (128 + k1), char_of (128 + k2),
          char_of (128 + k3)]"
    using rb rv by (simp add: EncodeRune_def d)
  also have "\<dots> = [c0, c1, c2, c3]" by (simp only: b [symmetric] char_of_char)
  finally show ?thesis using four by simp
qed

text \<open>
  A string is valid exactly when it is the encoding of valid code points, and these are
  then the runes of the range loop.
\<close>

lemma take_drop_width: "1 \<le> w \<Longrightarrow> take w (c # cs) @ drop (w - 1) cs = c # cs"
  by (cases w) simp_all

lemma ValidString_encode_range: "ValidString s \<Longrightarrow> concat (map EncodeRune (range_runes s)) = s"
proof (induction s rule: range_runes.induct)
  case 1
  show ?case by simp
next
  case (2 c cs)
  obtain r w where d: "DecodeRuneInString (c # cs) = (r, w)"
    by (cases "DecodeRuneInString (c # cs)")
  from "2.prems" d have ok: "\<not> (r = RuneError \<and> w = 1)" and rest: "ValidString (drop (w - 1) cs)"
    by simp_all
  have w: "1 \<le> w" using decode_width [OF d] by simp
  have "concat (map EncodeRune (range_runes (c # cs)))
        = EncodeRune r @ concat (map EncodeRune (range_runes (drop (w - 1) cs)))"
    using d by simp
  also have "\<dots> = take w (c # cs) @ drop (w - 1) cs"
    using "2.IH" [OF d [symmetric] rest] encode_decode [OF d ok] by simp
  also have "\<dots> = c # cs" using w by (rule take_drop_width)
  finally show ?case .
qed

lemma length_EncodeRune_RuneError: "length (EncodeRune RuneError) = 3"
  by (simp add: EncodeRune_def RuneError_def)

lemma ValidString_encode:
  assumes "ValidRune r" "ValidString rest"
  shows "ValidString (EncodeRune r @ rest)"
proof -
  obtain c cs where e: "EncodeRune r = c # cs"
    using EncodeRune_nonempty [of r] by (cases "EncodeRune r") auto
  have d: "DecodeRuneInString (c # cs @ rest) = (r, Suc (length cs))"
    using decode_encode [OF assms(1), of rest] unfolding e by simp
  have "\<not> (r = RuneError \<and> Suc (length cs) = 1)"
    using length_EncodeRune_RuneError e by auto
  then show ?thesis unfolding e using d assms(2) by simp
qed

lemma ValidString_spec_utf8: "list_all ValidRune rs \<Longrightarrow> ValidString (spec_utf8 rs)"
  unfolding spec_utf8_def by (induction rs) (simp_all add: ValidString_encode)

lemma ValidString_iff: "ValidString s \<longleftrightarrow> spec_wellEncoded s"
proof
  assume v: "ValidString s"
  have "list_all ValidRune (range_runes s)"
    by (simp add: list_all_iff range_runes_valid)
  moreover have "s = spec_utf8 (range_runes s)"
    using ValidString_encode_range [OF v] by (simp add: spec_utf8_def)
  ultimately show "spec_wellEncoded s" unfolding spec_wellEncoded_def by blast
next
  assume "spec_wellEncoded s"
  then show "ValidString s" unfolding spec_wellEncoded_def by (auto simp: ValidString_spec_utf8)
qed

lemma isValidLoop_eq: "isValidLoop rs \<longleftrightarrow> list_all keepRune rs"
  by (induction rs) (auto simp add: keepRune_def)

lemma keepRune_eq: "keepRune r \<longleftrightarrow> ValidRune r \<and> (IsControl r \<longrightarrow> r = 0x0D \<or> r = 0x0A \<or> r = 0x09)"
  by (auto simp add: keepRune_def ContainsRune_crlftab)

lemma isValidUTF8String_iff: "isValidUTF8String s \<longleftrightarrow> spec_isValidText s"
proof
  assume a: "isValidUTF8String s"
  then have v: "ValidString s" and l: "list_all keepRune (range_runes s)"
    by (auto simp add: isValidUTF8String_def isValidLoop_eq split: if_splits)
  have "list_all ValidRune (range_runes s)"
    by (simp add: list_all_iff range_runes_valid)
  moreover have "s = spec_utf8 (range_runes s)"
    using ValidString_encode_range [OF v] by (simp add: spec_utf8_def)
  moreover have "list_all (\<lambda>r. IsControl r \<longrightarrow> r = 0x0D \<or> r = 0x0A \<or> r = 0x09) (range_runes s)"
    using l by (simp add: list_all_iff keepRune_eq)
  ultimately show "spec_isValidText s" unfolding spec_isValidText_def by blast
next
  assume "spec_isValidText s"
  then obtain rs where rs: "list_all ValidRune rs" "s = spec_utf8 rs"
      "list_all (\<lambda>r. IsControl r \<longrightarrow> r = 0x0D \<or> r = 0x0A \<or> r = 0x09) rs"
    unfolding spec_isValidText_def by blast
  have v: "ValidString s" using rs(1,2) by (simp add: ValidString_spec_utf8)
  have "range_runes s = rs"
    using range_concat_encode [OF rs(1)] rs(2) by (simp add: spec_utf8_def)
  then have "list_all keepRune (range_runes s)"
    using rs(1,3) by (simp add: list_all_iff keepRune_eq)
  then show "isValidUTF8String s"
    using v by (simp add: isValidUTF8String_def isValidLoop_eq)
qed

text \<open>The two validity checks on three short strings.\<close>

lemma isValidUTF8String_ok: "isValidUTF8String [CHR 0x6F, CHR 0x6B, CHR 0x0A]"
  by (simp add: isValidUTF8String_def decode_ascii ValidRune_def IsControl_def
        ContainsRune_crlftab RuneError_def)

lemma isValidUTF8String_control: "\<not> isValidUTF8String [CHR 0x01]"
  by (simp add: isValidUTF8String_def decode_ascii ValidRune_def IsControl_def
        ContainsRune_crlftab RuneError_def)

lemma isValidUTF8String_invalid_byte: "\<not> isValidUTF8String [CHR 0xFF] \<and> \<not> claude_isValidUTF8String [CHR 0xFF]"
  by (simp add: isValidUTF8String_def claude_isValidUTF8String_def decode_bad_lead
        ValidRune_def IsControl_def ContainsRune_crlftab RuneError_def)

lemma claude_isValidUTF8String_control: "claude_isValidUTF8String [CHR 0x01]"
  by (simp add: claude_isValidUTF8String_def decode_ascii RuneError_def)

subsection \<open>Claim C1: status to finish reason and stop reason\<close>

text \<open>
  Claim C1, as amended.  For every backend status, the Chat-style mappings
  \<^verbatim>\<open>extractFinishReason\<close> and \<^verbatim>\<open>extractFinishReasonFromResponses\<close> follow the table: completed
  gives stop, incomplete gives length, failed gives error, cancelled gives stop and
  every other status gives stop.  The Messages-style mapping \<^verbatim>\<open>extractClaudeStopReason\<close>
  gives end_turn for completed, max_tokens for incomplete, and end_turn for every other
  status, failed and cancelled among them.
\<close>

theorem C1_status_mapping:
  "extractFinishReason ''completed'' = ''stop''
   \<and> extractFinishReason ''incomplete'' = ''length''
   \<and> extractFinishReason ''failed'' = ''error''
   \<and> extractFinishReason ''cancelled'' = ''stop''
   \<and> (status \<notin> {''completed'', ''incomplete'', ''failed'', ''cancelled''}
        \<longrightarrow> extractFinishReason status = ''stop'')
   \<and> extractFinishReasonFromResponses status = extractFinishReason status
   \<and> extractClaudeStopReason ''completed'' = ''end_turn''
   \<and> extractClaudeStopReason ''incomplete'' = ''max_tokens''
   \<and> (status \<noteq> ''incomplete'' \<longrightarrow> extractClaudeStopReason status = ''end_turn'')"
  by (simp add: extractFinishReason_def extractFinishReasonFromResponses_def
        extractClaudeStopReason_def)

text \<open>The theorem at the statuses queued and failed.\<close>

theorem C1_status_mapping_witness:
  "''queued'' \<notin> {''completed'', ''incomplete'', ''failed'', ''cancelled''}
   \<and> extractFinishReason ''queued'' = ''stop''
   \<and> extractFinishReasonFromResponses ''queued'' = ''stop''
   \<and> ''failed'' \<noteq> ''incomplete''
   \<and> extractClaudeStopReason ''failed'' = ''end_turn''"
  using C1_status_mapping [of "''queued''"] C1_status_mapping [of "''failed''"] by simp

text \<open>
  The claim as stated has failed give error for every target; the Messages-style mapping
  gives end_turn.
\<close>

theorem C1_counterexample:
  "extractClaudeStopReason ''failed'' = ''end_turn'' \<and> ''end_turn'' \<noteq> ''error''"
  by (simp add: extractClaudeStopReason_def)

subsection \<open>Claim C3: usage reconciliation\<close>

text \<open>
  The three stream handlers return the reconciled usage of what the scanner loop left.
\<close>

lemma reconcileUsage_total:
  "u_TotalTokens (reconcileUsage CountTextToken info txt usage)
     = u_PromptTokens (reconcileUsage CountTextToken info txt usage)
       + u_CompletionTokens (reconcileUsage CountTextToken info txt usage)"
  by (simp add: reconcileUsage_def Let_def)

lemma ResponsesToClaudeStreamHandler_total:
  assumes "ResponsesToClaudeStreamHandler UnmarshalJsonStr CountTextToken w info resp
           = (Inr usage, w', info')"
  shows "u_TotalTokens usage = u_PromptTokens usage + u_CompletionTokens usage"
  using assms
  by (auto simp add: ResponsesToClaudeStreamHandler_def Let_def reconcileUsage_total
        split: option.splits)

lemma ResponsesToChatStreamHandler_total:
  assumes "ResponsesToChatStreamHandler UnmarshalJsonStr CountTextToken w info resp
           = (Inr usage, w', info')"
  shows "u_TotalTokens usage = u_PromptTokens usage + u_CompletionTokens usage"
  using assms
  by (auto simp add: ResponsesToChatStreamHandler_def Let_def reconcileUsage_total
        split: option.splits)

lemma claude_ResponsesToClaudeStreamHandler_total:
  assumes "claude_ResponsesToClaudeStreamHandler UnmarshalJsonStr CountTextToken native
             rid created (Some True) w body info = (Inr usage, w', info')"
  shows "u_TotalTokens usage = u_PromptTokens usage + u_CompletionTokens usage"
  using assms
  by (auto simp add: claude_ResponsesToClaudeStreamHandler_def Let_def reconcileUsage_total)

text \<open>
  Claim C3.  At the end of a stream, with \<open>usage\<close> the running counter that the scanner
  loop left and \<open>txt\<close> the accumulated text: completion tokens that the backend reported
  (not zero) are kept; otherwise, when the text is not empty, the completion tokens are
  the tokenizer's count over the text; when the prompt tokens are zero and the completion
  tokens are then not zero, the prompt tokens are those of the request context; and the
  total is always prompt plus completion, whatever total the backend reported.
\<close>

theorem C3_reconcile:
  "(u_CompletionTokens usage \<noteq> 0 \<longrightarrow>
      u_CompletionTokens (reconcileUsage CountTextToken info txt usage) = u_CompletionTokens usage)
   \<and> (u_CompletionTokens usage = 0 \<and> txt \<noteq> [] \<longrightarrow>
      u_CompletionTokens (reconcileUsage CountTextToken info txt usage)
        = CountTextToken txt (info_UpstreamModelName info))
   \<and> (u_PromptTokens usage = 0
      \<and> u_CompletionTokens (reconcileUsage CountTextToken info txt usage) \<noteq> 0 \<longrightarrow>
      u_PromptTokens (reconcileUsage CountTextToken info txt usage) = info_PromptTokens info)
   \<and> u_TotalTokens (reconcileUsage CountTextToken info txt usage)
      = u_PromptTokens (reconcileUsage CountTextToken info txt usage)
        + u_CompletionTokens (reconcileUsage CountTextToken info txt usage)"
  by (auto simp add: reconcileUsage_def Let_def)

text \<open>
  The theorem for the text Hello world with no usage from the backend (a tokenizer that
  counts three tokens, four prompt tokens in the context), and for a backend that
  reported two completion tokens and the total 99.
\<close>

theorem C3_reconcile_witness:
  "u_CompletionTokens zero_Usage = 0 \<and> ''Hello world'' \<noteq> []
   \<and> u_CompletionTokens (reconcileUsage (\<lambda>t m. 3) exampleInfo ''Hello world'' zero_Usage) = 3
   \<and> u_PromptTokens zero_Usage = 0
   \<and> u_PromptTokens (reconcileUsage (\<lambda>t m. 3) exampleInfo ''Hello world'' zero_Usage) = 4
   \<and> u_TotalTokens (reconcileUsage (\<lambda>t m. 3) exampleInfo ''Hello world'' zero_Usage) = 7
   \<and> u_CompletionTokens (zero_Usage\<lparr>u_CompletionTokens := 2, u_TotalTokens := 99\<rparr>) \<noteq> 0
   \<and> u_CompletionTokens (reconcileUsage (\<lambda>t m. 3) exampleInfo ''Hello world''
         (zero_Usage\<lparr>u_CompletionTokens := 2, u_TotalTokens := 99\<rparr>)) = 2
   \<and> u_TotalTokens (reconcileUsage (\<lambda>t m. 3) exampleInfo ''Hello world''
         (zero_Usage\<lparr>u_CompletionTokens := 2, u_TotalTokens := 99\<rparr>)) = 6"
  using C3_reconcile [of zero_Usage "\<lambda>t m. 3" exampleInfo "''Hello world''"]
    C3_reconcile [of "zero_Usage\<lparr>u_CompletionTokens := 2, u_TotalTokens := 99\<rparr>"
      "\<lambda>t m. 3" exampleInfo "''Hello world''"]
  by (simp add: zero_Usage_def exampleInfo_def reconcileUsage_def)

subsection \<open>Claim C7: the text of a response's output\<close>

lemma appendBlocks_eq:
  "appendBlocks ty blocks acc = acc @ concat (map roc_Text (filter (\<lambda>b. roc_Type b = ty) blocks))"
  by (induction blocks arbitrary: acc) simp_all

lemma appendItems_eq: "appendItems ty items acc = acc @ textOfType ty items"
  by (induction items arbitrary: acc)
     (simp_all add: textOfType_def isAssistantMessage_def appendBlocks_eq)

text \<open>
  Claim C7, as amended.  For every output list, each assembler's content is the in-order
  concatenation of the text of the content blocks of one type in the assistant's message
  items: type \<^verbatim>\<open>output_text\<close> for \<^verbatim>\<open>extractContentFromOutput\<close> of convert.go (line 318) and
  of package \<^verbatim>\<open>claude\<close>, type \<^verbatim>\<open>text\<close> for the second declaration in convert.go (line 678).
  Items that are no assistant message and blocks of any other type contribute nothing.
\<close>

theorem C7_extract_content:
  "extractContentFromOutput output = textOfType ''output_text'' output
   \<and> claude_extractContentFromOutput output = textOfType ''output_text'' output
   \<and> extractContentFromOutput_678 output = textOfType ''text'' output"
  by (simp add: extractContentFromOutput_def claude_extractContentFromOutput_def
        extractContentFromOutput_678_def appendItems_eq)

text \<open>The theorem at the example output.\<close>

theorem C7_extract_content_witness:
  "extractContentFromOutput exampleOutput = ''af''
   \<and> claude_extractContentFromOutput exampleOutput = ''af''
   \<and> extractContentFromOutput_678 exampleOutput = ''b''"
  using C7_extract_content [of exampleOutput]
  by (simp add: textOfType_def isAssistantMessage_def exampleOutput_def)

text \<open>
  The claim as stated counts blocks of both types as textual: on the example output
  that text is abf, and no assembler returns it.
\<close>

theorem C7_counterexample:
  "spec_assistantText exampleOutput = ''abf''
   \<and> extractContentFromOutput exampleOutput = ''af''
   \<and> claude_extractContentFromOutput exampleOutput = ''af''
   \<and> extractContentFromOutput_678 exampleOutput = ''b''"
  by (simp add: spec_assistantText_def spec_isTextual_def isAssistantMessage_def exampleOutput_def
        extractContentFromOutput_def claude_extractContentFromOutput_def
        extractContentFromOutput_678_def)

subsection \<open>Claim C8: valid text\<close>

text \<open>
  Claim C8, as amended.  For every string \<open>s\<close>, \<^verbatim>\<open>isValidUTF8String\<close> of package
  \<^verbatim>\<open>openai_responses\<close> answers true if and only if \<open>s\<close> is the encoding of valid code
  points none of which is a control character other than CR, LF and TAB; and
  \<^verbatim>\<open>isValidUTF8String\<close> of package \<^verbatim>\<open>claude\<close> answers true if and only if \<open>s\<close> is the
  encoding of valid code points, control characters or not.
\<close>

theorem C8_isValidText:
  "(isValidUTF8String s \<longleftrightarrow> spec_isValidText s)
   \<and> (claude_isValidUTF8String s \<longleftrightarrow> spec_wellEncoded s)"
  by (simp add: isValidUTF8String_iff claude_isValidUTF8String_def ValidString_iff)

text \<open>
  The theorem at the texts ok with a line feed, the control character U+0001, and the
  byte \<^verbatim>\<open>0xFF\<close>.
\<close>

theorem C8_isValidText_witness:
  "spec_isValidText [CHR 0x6F, CHR 0x6B, CHR 0x0A] \<and> \<not> spec_isValidText [CHR 0x01]
   \<and> \<not> spec_isValidText [CHR 0xFF] \<and> spec_wellEncoded [CHR 0x01]
   \<and> \<not> spec_wellEncoded [CHR 0xFF]"
  using C8_isValidText [of "[CHR 0x6F, CHR 0x6B, CHR 0x0A]"] C8_isValidText [of "[CHR 0x01]"]
    C8_isValidText [of "[CHR 0xFF]"] isValidUTF8String_ok isValidUTF8String_control isValidUTF8String_invalid_byte claude_isValidUTF8String_control
  by simp

text \<open>
  The claim as stated fails for package \<^verbatim>\<open>claude\<close>: its check accepts the control
  character U+0001.
\<close>

theorem C8_counterexample:
  "claude_isValidUTF8String [CHR 0x01] \<and> \<not> spec_isValidText [CHR 0x01]"
  using isValidUTF8String_iff [of "[CHR 0x01]"] isValidUTF8String_control claude_isValidUTF8String_control by simp

subsection \<open>Claim C9\<close>

text \<open>
  Claim C9.  For every string \<open>s\<close>, the sanitizer \<^verbatim>\<open>cleanInvalidUTF8Chars\<close> (the same
  function in both packages) is idempotent: sanitizing a sanitized string changes nothing.
\<close>

theorem C9_sanitize_idempotent:
  "cleanInvalidUTF8Chars (cleanInvalidUTF8Chars s) = cleanInvalidUTF8Chars s"
proof -
  have "cleanInvalidUTF8Chars (cleanInvalidUTF8Chars s)
        = concat (map EncodeRune (filter keepRune (range_runes (cleanInvalidUTF8Chars s))))"
    by (rule cleanInvalidUTF8Chars_eq)
  also have "\<dots> = concat (map EncodeRune (filter keepRune (filter keepRune (range_runes s))))"
    by (simp only: range_clean)
  also have "\<dots> = concat (map EncodeRune (filter keepRune (range_runes s)))"
    by simp
  also have "\<dots> = cleanInvalidUTF8Chars s"
    by (simp only: cleanInvalidUTF8Chars_eq)
  finally show ?thesis .
qed


end
